theory Spec2Isabelle
  imports Complex_Main "HOL-Library.Multiset"
begin

section \<open>The historical analysis service of the IPO hype tracker\<close>

text \<open>
  A shallow embedding of \<^verbatim>\<open>services/historical_analysis_service.py\<close>
  (class \<^verbatim>\<open>HistoricalAnalysisService\<close>). Python floats are modelled as
  \<^typ>\<open>real\<close>, so rounding error, infinities and NaN are outside the model. A
  dictionary with a fixed set of keys is a record whose fields are options
  (\<open>None\<close>: the key is absent); \<^verbatim>\<open>d.get(k, default)\<close> is \<open>get_or\<close>.
  Exceptions are values of the type \<open>exn\<close>; a function that may raise returns
  \<open>exn + 'a\<close>.
\<close>

subsection \<open>Python's library functions\<close>

datatype exn = StatisticsError | DatabaseError

fun get_or :: "'a option \<Rightarrow> 'a \<Rightarrow> 'a" where
  "get_or None d = d"
| "get_or (Some v) d = v"

text \<open>\<^verbatim>\<open>statistics.median\<close>: the middle of the sorted data, the mean of the two
  middle values when the length is even; it raises on empty data.\<close>

definition median_of :: "real list \<Rightarrow> real" where
  "median_of xs =
     (let data = sort xs; n = length data in
      if n mod 2 = 1 then data ! (n div 2)
      else (data ! (n div 2 - 1) + data ! (n div 2)) / 2)"

definition py_median :: "real list \<Rightarrow> exn + real" where
  "py_median xs = (if xs = [] then Inl StatisticsError else Inr (median_of xs))"

text \<open>\<^verbatim>\<open>statistics.mean\<close> raises on empty data, \<^verbatim>\<open>statistics.stdev\<close> (the
  sample standard deviation) on fewer than two values. Every call of the two in the
  service is guarded by the caller, so only their values are needed.\<close>

definition mean_of :: "real list \<Rightarrow> real" where
  "mean_of xs = sum_list xs / real (length xs)"

definition stdev_of :: "real list \<Rightarrow> real" where
  "stdev_of xs =
     (let m = mean_of xs in
      sqrt (sum_list (map (\<lambda>x. (x - m) ^ 2) xs) / real (length xs - 1)))"

text \<open>The square root is not computable: evaluation by the code equations leaves a
  standard deviation as it stands.\<close>

declare stdev_of_def [code del]

text \<open>\<^verbatim>\<open>round(x, ndigits)\<close>: to the nearest multiple of \<open>10 ^ -ndigits\<close>, a tie
  to the even one.\<close>

definition py_round :: "real \<Rightarrow> nat \<Rightarrow> real" where
  "py_round x ndigits =
     (let y = x * 10 ^ ndigits; f = \<lfloor>y\<rfloor>; d = y - of_int f in
      of_int (if d < 1 / 2 then f else if 1 / 2 < d then f + 1
              else if even f then f else f + 1) / 10 ^ ndigits)"

subsection \<open>Percentile rank and safe median\<close>

definition calculate_percentile_rank :: "real \<Rightarrow> real list \<Rightarrow> real" where
  "calculate_percentile_rank v data =
     (if data = [] then 50
      else (let sorted_data = sort data;
                rank = length (filter (\<lambda>x. x < v) sorted_data)
            in real rank / real (length sorted_data) * 100))"

definition safe_median :: "real list \<Rightarrow> real \<Rightarrow> real" where
  "safe_median vs dflt =
     (if vs = [] then dflt
      else if length vs = 1 then hd vs
      else median_of vs)"

subsection \<open>The data model\<close>

text \<open>A row of the candidate query on \<^verbatim>\<open>historical_ipos\<close>; a nullable column
  is an option.\<close>

record ipo_row =
  row_ticker :: string
  row_name :: string
  row_sector :: "string option"
  row_industry :: "string option"
  row_revenue_growth_yoy :: "real option"
  row_gross_margin :: "real option"
  row_operating_margin :: "real option"
  row_market_cap_at_ipo :: "real option"
  row_first_day_return :: "real option"
  row_first_week_return :: "real option"
  row_first_month_return :: "real option"
  row_market_cap_category :: "string option"
  row_growth_stage :: "string option"

record SimilarityMatch =
  sm_ticker :: string
  sm_name :: string
  sm_similarity_score :: real
  sm_matching_factors :: "string list"
  sm_revenue_growth :: "real option"
  sm_gross_margin :: "real option"
  sm_market_cap :: "real option"
  sm_first_day_return :: "real option"
  sm_first_week_return :: "real option"
  sm_first_month_return :: "real option"

record HistoricalBenchmark =
  hb_metric_name :: string
  hb_current_value :: real
  hb_historical_median :: real
  hb_historical_mean :: real
  hb_historical_std :: real
  hb_percentile_rank :: real
  hb_similar_ipos_median :: real
  hb_similar_ipos_mean :: real
  hb_similar_ipos_std :: real
  hb_similar_ipos_percentile :: real

text \<open>The feature record of the company under analysis (\<^verbatim>\<open>current_ipo\<close>), with the
  keys the service reads. A key is absent (\<open>None\<close>) or holds a value of its type.\<close>

record current_ipo =
  ipo_sector :: "string option"
  ipo_industry :: "string option"
  ipo_implied_market_cap :: "real option"
  ipo_revenue_growth_yoy :: "real option"
  ipo_gross_margin :: "real option"
  ipo_trend_score :: "real option"
  ipo_trend_average_interest :: "real option"
  ipo_trend_recent_interest :: "real option"
  ipo_trend_data_available :: "bool option"
  ipo_trend_error :: "string option"
  ipo_sentiment_score :: "real option"
  ipo_news_total_articles :: "int option"
  ipo_news_data_available :: "bool option"
  ipo_news_error :: "string option"

text \<open>
  The historical corpus as the service sees it: whether \<^verbatim>\<open>_get_db_pool\<close> yields a
  pool, and what each \<^verbatim>\<open>conn.fetch\<close> of the service returns (the rows, or an
  exception). The SQL engine is not modelled:
  \<^item> \<open>fetch_candidates c s\<close>: the candidate query of the similarity matcher, with the
    market-cap category \<open>c\<close> and the sector \<open>s\<close> as parameters when they are given
    (last five years, most recent 50);
  \<^item> \<open>fetch_revenue_growth\<close>, \<open>fetch_gross_margin\<close>, \<open>fetch_market_cap\<close>: the
    non-null values of one column of \<^verbatim>\<open>historical_ipos\<close>, last five years;
  \<^item> \<open>fetch_trend_scores\<close>, \<open>fetch_sentiment_scores\<close>: the column of the last 18
    months of \<^verbatim>\<open>historical_search_trends\<close> / \<^verbatim>\<open>historical_news_sentiment\<close>
    (at most 5000 rows); \<open>fetch_trend_scores_for ts\<close>, \<open>fetch_sentiment_scores_for ts\<close>:
    the same for the tickers \<open>ts\<close>;
  \<^item> \<open>fetch_performance\<close>: first-day, first-week and first-month returns of
    \<^verbatim>\<open>historical_ipos\<close>, last five years.
\<close>

record db =
  pool_available :: bool
  fetch_candidates :: "string option \<Rightarrow> string option \<Rightarrow> exn + ipo_row list"
  fetch_revenue_growth :: "exn + real list"
  fetch_gross_margin :: "exn + real list"
  fetch_market_cap :: "exn + real list"
  fetch_trend_scores :: "exn + real option list"
  fetch_trend_scores_for :: "string list \<Rightarrow> exn + real option list"
  fetch_sentiment_scores :: "exn + real option list"
  fetch_sentiment_scores_for :: "string list \<Rightarrow> exn + real option list"
  fetch_performance :: "exn + (real option \<times> real option \<times> real option) list"

definition get_db_pool :: "db \<Rightarrow> bool" where
  "get_db_pool env = pool_available env"

subsection \<open>Similarity matcher\<close>

definition market_cap_category_of :: "real \<Rightarrow> string option" where
  "market_cap_category_of market_cap =
     (if market_cap \<noteq> 0 then
        (let market_cap_billions = market_cap / 1000000000 in
         if market_cap_billions < 0.3 then Some ''micro''
         else if market_cap_billions < 2 then Some ''small''
         else if market_cap_billions < 10 then Some ''mid''
         else if market_cap_billions < 200 then Some ''large''
         else Some ''mega'')
      else None)"

text \<open>The revenue-growth test of the loop body: both growth rates must be truthy
  (present and non-zero) before the relative difference is looked at.\<close>

definition revenue_growth_matches :: "real option \<Rightarrow> real \<Rightarrow> bool" where
  "revenue_growth_matches row_growth revenue_growth =
     (case row_growth of
        None \<Rightarrow> False
      | Some g \<Rightarrow>
          if g \<noteq> 0 \<and> revenue_growth \<noteq> 0
          then \<bar>g - revenue_growth\<bar> / max \<bar>revenue_growth\<bar> 1 < 0.2
          else False)"

text \<open>The similarity score and the matching factors of one row.\<close>

definition score_row ::
  "string option \<Rightarrow> string \<Rightarrow> string \<Rightarrow> real \<Rightarrow> ipo_row \<Rightarrow> real \<times> string list" where
  "score_row market_cap_category sector industry revenue_growth row =
     (let (s1, f1) = (if row_market_cap_category row = market_cap_category
                      then (0 + 0.3, [''market_cap'']) else (0, []));
          (s2, f2) = (if row_sector row = Some sector
                      then (s1 + 0.2, f1 @ [''sector'']) else (s1, f1));
          (s3, f3) = (if row_industry row = Some industry
                      then (s2 + 0.2, f2 @ [''industry'']) else (s2, f2))
      in if revenue_growth_matches (row_revenue_growth_yoy row) revenue_growth
         then (s3 + 0.3, f3 @ [''revenue_growth'']) else (s3, f3))"

text \<open>The match built for a row whose score reaches the threshold. The constructor
  call of the source passes no \<^verbatim>\<open>market_cap\<close>, so the field keeps its default
  \<^verbatim>\<open>None\<close>.\<close>

definition match_row ::
  "string option \<Rightarrow> string \<Rightarrow> string \<Rightarrow> real \<Rightarrow> ipo_row \<Rightarrow> SimilarityMatch option" where
  "match_row market_cap_category sector industry revenue_growth row =
     (let (score, factors) = score_row market_cap_category sector industry revenue_growth row
      in if score \<ge> 0.3
         then Some \<lparr> sm_ticker = row_ticker row, sm_name = row_name row,
                     sm_similarity_score = score, sm_matching_factors = factors,
                     sm_revenue_growth = row_revenue_growth_yoy row,
                     sm_gross_margin = row_gross_margin row,
                     sm_market_cap = None,
                     sm_first_day_return = row_first_day_return row,
                     sm_first_week_return = row_first_week_return row,
                     sm_first_month_return = row_first_month_return row \<rparr>
         else None)"

fun match_rows ::
  "string option \<Rightarrow> string \<Rightarrow> string \<Rightarrow> real \<Rightarrow> ipo_row list \<Rightarrow> SimilarityMatch list" where
  "match_rows c s i g [] = []"
| "match_rows c s i g (row # rows) =
     (case match_row c s i g row of
        None \<Rightarrow> match_rows c s i g rows
      | Some m \<Rightarrow> m # match_rows c s i g rows)"

text \<open>\<^verbatim>\<open>sort(key=..., reverse=True)\<close> is a stable sort in descending order of
  the key.\<close>

definition sort_by_similarity :: "SimilarityMatch list \<Rightarrow> SimilarityMatch list" where
  "sort_by_similarity ms = sort_key (\<lambda>m. - sm_similarity_score m) ms"

definition find_similar_historical_ipos :: "db \<Rightarrow> current_ipo \<Rightarrow> SimilarityMatch list" where
  "find_similar_historical_ipos env current =
     (if \<not> get_db_pool env then []
      else
        (let market_cap = get_or (ipo_implied_market_cap current) 0;
             revenue_growth = get_or (ipo_revenue_growth_yoy current) 0;
             sector = get_or (ipo_sector current) [];
             industry = get_or (ipo_industry current) [];
             market_cap_category = market_cap_category_of market_cap
         in case fetch_candidates env market_cap_category
                   (if sector \<noteq> [] then Some sector else None) of
              Inl e \<Rightarrow> []
            | Inr rows \<Rightarrow>
                take 10 (sort_by_similarity
                  (match_rows market_cap_category sector industry revenue_growth rows))))"

subsection \<open>Benchmark calculator\<close>

text \<open>One \<^verbatim>\<open>HistoricalBenchmark(...)\<close> of the source, which builds three of them
  by the same expressions.\<close>

definition make_benchmark ::
  "string \<Rightarrow> real \<Rightarrow> real list \<Rightarrow> real list \<Rightarrow> HistoricalBenchmark" where
  "make_benchmark metric current historical similar =
     \<lparr> hb_metric_name = metric,
       hb_current_value = current,
       hb_historical_median = (if historical \<noteq> [] then median_of historical else 0),
       hb_historical_mean = (if historical \<noteq> [] then mean_of historical else 0),
       hb_historical_std = (if length historical > 1 then stdev_of historical else 0),
       hb_percentile_rank = calculate_percentile_rank current historical,
       hb_similar_ipos_median = (if similar \<noteq> [] then median_of similar else 0),
       hb_similar_ipos_mean = (if similar \<noteq> [] then mean_of similar else 0),
       hb_similar_ipos_std = (if length similar > 1 then stdev_of similar else 0),
       hb_similar_ipos_percentile = calculate_percentile_rank current similar \<rparr>"

text \<open>An exception inside the \<^verbatim>\<open>try\<close> block is caught and the benchmarks
  appended so far are returned.\<close>

definition calculate_historical_benchmarks ::
  "db \<Rightarrow> current_ipo \<Rightarrow> SimilarityMatch list \<Rightarrow> HistoricalBenchmark list" where
  "calculate_historical_benchmarks env current similar_ipos =
     (if \<not> get_db_pool env then []
      else
        (case fetch_revenue_growth env of
           Inl e \<Rightarrow> []
         | Inr historical_growth_rates \<Rightarrow>
             (let b1 = make_benchmark ''Revenue Growth YoY''
                         (get_or (ipo_revenue_growth_yoy current) 0)
                         historical_growth_rates
                         (List.map_filter sm_revenue_growth similar_ipos)
              in case fetch_gross_margin env of
                   Inl e \<Rightarrow> [b1]
                 | Inr historical_margins \<Rightarrow>
                     (let b2 = make_benchmark ''Gross Margin''
                                 (get_or (ipo_gross_margin current) 0)
                                 historical_margins
                                 (List.map_filter sm_gross_margin similar_ipos)
                      in case fetch_market_cap env of
                           Inl e \<Rightarrow> [b1, b2]
                         | Inr historical_market_caps \<Rightarrow>
                             [b1, b2,
                              make_benchmark ''Market Cap''
                                (get_or (ipo_implied_market_cap current) 0)
                                historical_market_caps
                                (List.map_filter sm_market_cap similar_ipos)]))))"

subsection \<open>Trend and sentiment analysis\<close>

text \<open>The dictionaries the two analysers return and the scorers read.\<close>

record search_analysis =
  sa_current_trend_score :: "real option"
  sa_effective_trend_score :: "real option"
  sa_historical_percentile :: "real option"
  sa_similar_ipos_percentile :: "real option"
  sa_effective_percentile :: "real option"
  sa_trend_strength :: "string option"
  sa_trend_impact :: "string option"
  sa_historical_median :: "real option"
  sa_similar_ipos_median :: "real option"
  sa_trend_volatility :: "real option"
  sa_data_available :: "bool option"
  sa_used_historical_fallback :: "bool option"
  sa_fallback_source :: "string option"
  sa_data_confidence :: "real option"
  sa_historical_sample_size :: "nat option"
  sa_similar_sample_size :: "nat option"

record sentiment_analysis =
  se_current_sentiment :: "real option"
  se_effective_sentiment :: "real option"
  se_total_articles :: "int option"
  se_historical_percentile :: "real option"
  se_similar_ipos_percentile :: "real option"
  se_effective_percentile :: "real option"
  se_sentiment_strength :: "string option"
  se_historical_median :: "real option"
  se_similar_ipos_median :: "real option"
  se_data_available :: "bool option"
  se_used_historical_fallback :: "bool option"
  se_fallback_source :: "string option"
  se_data_confidence :: "real option"
  se_historical_sample_size :: "nat option"
  se_similar_sample_size :: "nat option"

text \<open>Truthiness of an optional string (\<^verbatim>\<open>trend_error\<close>, \<^verbatim>\<open>news_error\<close>): neither
  \<^verbatim>\<open>None\<close> nor empty.\<close>

definition truthy_str :: "string option \<Rightarrow> bool" where
  "truthy_str s = (case s of None \<Rightarrow> False | Some t \<Rightarrow> t \<noteq> [])"

text \<open>
  The \<^verbatim>\<open>if pool: try: ... except\<close> block both analysers start with, given the two
  fetches: the non-null scores of the whole table and, when a peer has a ticker, those
  of the peers' tickers. Both lists start empty; an exception leaves what was assigned
  before it.
\<close>

definition fetch_score_pools ::
  "bool \<Rightarrow> (exn + real option list) \<Rightarrow> (string list \<Rightarrow> exn + real option list) \<Rightarrow>
   SimilarityMatch list \<Rightarrow> real list \<times> real list" where
  "fetch_score_pools pool fetch_all fetch_for similar_ipos =
     (if pool then
        (case fetch_all of
           Inl e \<Rightarrow> ([], [])
         | Inr rows \<Rightarrow>
             (let historical_scores = List.map_filter id rows;
                  similar_tickers = filter (\<lambda>t. t \<noteq> []) (map sm_ticker similar_ipos)
              in if similar_tickers \<noteq> [] then
                   (case fetch_for similar_tickers of
                      Inl e \<Rightarrow> (historical_scores, [])
                    | Inr rows' \<Rightarrow> (historical_scores, List.map_filter id rows'))
                 else (historical_scores, [])))
      else ([], []))"

text \<open>The two pools of the trend analysis after the defaults of lines 360 to 363.\<close>

definition trend_pools :: "db \<Rightarrow> SimilarityMatch list \<Rightarrow> real list \<times> real list" where
  "trend_pools env similar_ipos =
     (let (fetched_historical, fetched_similar) =
            fetch_score_pools (get_db_pool env) (fetch_trend_scores env)
              (fetch_trend_scores_for env) similar_ipos;
          historical_trend_scores =
            (if fetched_historical = [] then [50] else fetched_historical);
          similar_trend_scores =
            (if fetched_similar = [] then historical_trend_scores else fetched_similar)
      in (historical_trend_scores, similar_trend_scores))"

definition analyze_search_trends_historically ::
  "db \<Rightarrow> current_ipo \<Rightarrow> SimilarityMatch list \<Rightarrow> search_analysis" where
  "analyze_search_trends_historically env current similar_ipos =
     (let current_trend_score = get_or (ipo_trend_score current) 0;
          average_interest = get_or (ipo_trend_average_interest current) 0;
          recent_interest = get_or (ipo_trend_recent_interest current) 0;
          live_data_available =
            (get_or (ipo_trend_data_available current) False
             \<and> (average_interest + recent_interest > 0 \<or> current_trend_score > 0));
          trend_error = ipo_trend_error current;
          (historical_trend_scores, similar_trend_scores) = trend_pools env similar_ipos;
          (fallback_used, fallback_source, effective_trend_score) =
            (if \<not> live_data_available \<or> truthy_str trend_error then
               (if similar_trend_scores \<noteq> []
                then (True, ''similar'', safe_median similar_trend_scores 55)
                else (True, ''historical'', safe_median historical_trend_scores 55))
             else if current_trend_score \<le> 0 \<and> recent_interest \<le> 0 \<and> average_interest \<le> 0
             then (True, ''similar'', safe_median similar_trend_scores 55)
             else (False, ''live'', current_trend_score));
          trend_percentile =
            calculate_percentile_rank effective_trend_score historical_trend_scores;
          similar_trend_percentile =
            calculate_percentile_rank effective_trend_score similar_trend_scores;
          (trend_strength, trend_impact) =
            (if trend_percentile \<ge> 90 then (''Exceptional'', ''Very High'')
             else if trend_percentile \<ge> 75 then (''Strong'', ''High'')
             else if trend_percentile \<ge> 50 then (''Moderate'', ''Medium'')
             else (''Weak'', ''Low''));
          data_confidence =
            (if \<not> fallback_used then 1
             else if fallback_source = ''similar'' then 0.75
             else 0.6)
      in \<lparr> sa_current_trend_score = Some current_trend_score,
           sa_effective_trend_score = Some effective_trend_score,
           sa_historical_percentile = Some trend_percentile,
           sa_similar_ipos_percentile = Some similar_trend_percentile,
           sa_effective_percentile = Some similar_trend_percentile,
           sa_trend_strength = Some trend_strength,
           sa_trend_impact = Some trend_impact,
           sa_historical_median = Some (safe_median historical_trend_scores 50),
           sa_similar_ipos_median = Some (safe_median similar_trend_scores 50),
           sa_trend_volatility =
             Some (if length historical_trend_scores > 1
                   then stdev_of historical_trend_scores else 0),
           sa_data_available = Some (live_data_available \<and> \<not> fallback_used),
           sa_used_historical_fallback = Some fallback_used,
           sa_fallback_source = Some fallback_source,
           sa_data_confidence = Some data_confidence,
           sa_historical_sample_size = Some (length historical_trend_scores),
           sa_similar_sample_size = Some (length similar_trend_scores) \<rparr>)"

text \<open>The two pools of the sentiment analysis after the defaults of lines 466 to 469.\<close>

definition sentiment_pools :: "db \<Rightarrow> SimilarityMatch list \<Rightarrow> real list \<times> real list" where
  "sentiment_pools env similar_ipos =
     (let (fetched_historical, fetched_similar) =
            fetch_score_pools (get_db_pool env) (fetch_sentiment_scores env)
              (fetch_sentiment_scores_for env) similar_ipos;
          historical_sentiment_scores =
            (if fetched_historical = [] then [0] else fetched_historical);
          similar_sentiment_scores =
            (if fetched_similar = [] then historical_sentiment_scores else fetched_similar)
      in (historical_sentiment_scores, similar_sentiment_scores))"

definition analyze_sentiment_historically ::
  "db \<Rightarrow> current_ipo \<Rightarrow> SimilarityMatch list \<Rightarrow> sentiment_analysis" where
  "analyze_sentiment_historically env current similar_ipos =
     (let current_sentiment = get_or (ipo_sentiment_score current) 0;
          total_articles = get_or (ipo_news_total_articles current) 0;
          live_data_available =
            (get_or (ipo_news_data_available current) False \<and> total_articles > 0);
          news_error = ipo_news_error current;
          (historical_sentiment_scores, similar_sentiment_scores) =
            sentiment_pools env similar_ipos;
          (fallback_used, fallback_source, effective_sentiment) =
            (if \<not> live_data_available \<or> truthy_str news_error then
               (if similar_sentiment_scores \<noteq> []
                then (True, ''similar'', safe_median similar_sentiment_scores 0.05)
                else (True, ''historical'', safe_median historical_sentiment_scores 0.05))
             else if total_articles = 0
             then (True, ''similar'', safe_median similar_sentiment_scores 0.05)
             else (False, ''live'', current_sentiment));
          sentiment_percentile =
            calculate_percentile_rank effective_sentiment historical_sentiment_scores;
          similar_sentiment_percentile =
            calculate_percentile_rank effective_sentiment similar_sentiment_scores;
          sentiment_strength =
            (if effective_sentiment > 0.2 then ''Extremely Positive''
             else if effective_sentiment > 0.1 then ''Very Positive''
             else if effective_sentiment > 0.02 then ''Moderately Positive''
             else if effective_sentiment < - 0.05 then ''Negative''
             else ''Neutral/Negative'');
          data_confidence =
            (if \<not> fallback_used then 1
             else if fallback_source = ''similar'' then 0.7
             else 0.55)
      in \<lparr> se_current_sentiment = Some current_sentiment,
           se_effective_sentiment = Some effective_sentiment,
           se_total_articles = Some total_articles,
           se_historical_percentile = Some sentiment_percentile,
           se_similar_ipos_percentile = Some similar_sentiment_percentile,
           se_effective_percentile = Some similar_sentiment_percentile,
           se_sentiment_strength = Some sentiment_strength,
           se_historical_median = Some (safe_median historical_sentiment_scores 0),
           se_similar_ipos_median = Some (safe_median similar_sentiment_scores 0),
           se_data_available = Some (live_data_available \<and> \<not> fallback_used),
           se_used_historical_fallback = Some fallback_used,
           se_fallback_source = Some fallback_source,
           se_data_confidence = Some data_confidence,
           se_historical_sample_size = Some (length historical_sentiment_scores),
           se_similar_sample_size = Some (length similar_sentiment_scores) \<rparr>)"

subsection \<open>Performance prediction\<close>

record performance_predictions =
  pp_predicted_first_day_return :: "real option"
  pp_predicted_first_week_return :: "real option"
  pp_predicted_first_month_return :: "real option"
  pp_performance_volatility :: "real option"
  pp_historical_sample_size :: "nat option"
  pp_risk_level :: "string option"

text \<open>The three medians are taken outside the \<^verbatim>\<open>try\<close> block and unguarded:
  \<^verbatim>\<open>statistics.median\<close> raises on an empty list and the exception leaves the
  function.\<close>

definition predict_performance_from_history ::
  "db \<Rightarrow> current_ipo \<Rightarrow> SimilarityMatch list \<Rightarrow> exn + performance_predictions" where
  "predict_performance_from_history env current similar_ipos =
     (let (first_day_returns, first_week_returns, first_month_returns) =
            (if get_db_pool env then
               (case fetch_performance env of
                  Inl e \<Rightarrow> ([], [], [])
                | Inr historical_performance \<Rightarrow>
                    (List.map_filter fst historical_performance
                       @ List.map_filter sm_first_day_return similar_ipos,
                     List.map_filter (\<lambda>row. fst (snd row)) historical_performance
                       @ List.map_filter sm_first_week_return similar_ipos,
                     List.map_filter (\<lambda>row. snd (snd row)) historical_performance
                       @ List.map_filter sm_first_month_return similar_ipos))
             else ([], [], []))
      in case py_median first_day_returns of
           Inl e \<Rightarrow> Inl e
         | Inr predicted_first_day \<Rightarrow>
      (case py_median first_week_returns of
           Inl e \<Rightarrow> Inl e
         | Inr predicted_first_week \<Rightarrow>
      (case py_median first_month_returns of
           Inl e \<Rightarrow> Inl e
         | Inr predicted_first_month \<Rightarrow>
          (let performance_volatility =
                 (if length first_day_returns > 1 then stdev_of first_day_returns else 0)
           in Inr \<lparr> pp_predicted_first_day_return = Some predicted_first_day,
                     pp_predicted_first_week_return = Some predicted_first_week,
                     pp_predicted_first_month_return = Some predicted_first_month,
                     pp_performance_volatility = Some performance_volatility,
                     pp_historical_sample_size = Some (length first_day_returns),
                     pp_risk_level =
                       Some (if performance_volatility > 0.3 then ''High''
                             else if performance_volatility > 0.15 then ''Medium''
                             else ''Low'') \<rparr>))))"

subsection \<open>Component scorers\<close>

definition calculate_financial_score :: "HistoricalBenchmark list \<Rightarrow> real" where
  "calculate_financial_score benchmarks =
     (if benchmarks = [] then 50
      else mean_of (map (\<lambda>benchmark.
             hb_similar_ipos_percentile benchmark * 0.7 + hb_percentile_rank benchmark * 0.3)
             benchmarks))"

definition trend_strength_multiplier :: "string \<Rightarrow> real" where
  "trend_strength_multiplier strength =
     (if strength = ''Exceptional'' then 1.2
      else if strength = ''Strong'' then 1.1
      else if strength = ''Moderate'' then 1.0
      else if strength = ''Weak'' then 0.8
      else 1.0)"

definition calculate_trend_score :: "search_analysis \<Rightarrow> real" where
  "calculate_trend_score analysis =
     (let percentile = get_or (sa_effective_percentile analysis)
                         (get_or (sa_similar_ipos_percentile analysis) 50);
          strength = get_or (sa_trend_strength analysis) ''Moderate'';
          data_confidence = get_or (sa_data_confidence analysis) 1;
          strength_multiplier = trend_strength_multiplier strength;
          base_score = min 100 (percentile * strength_multiplier);
          confidence_multiplier = 0.6 + 0.4 * max 0 (min 1 data_confidence);
          score = base_score * confidence_multiplier
      in max 35 (min 100 score))"

definition sentiment_strength_multiplier :: "string \<Rightarrow> real" where
  "sentiment_strength_multiplier strength =
     (if strength = ''Extremely Positive'' then 1.2
      else if strength = ''Very Positive'' then 1.1
      else if strength = ''Moderately Positive'' then 1.0
      else if strength = ''Neutral/Negative'' then 0.7
      else if strength = ''Negative'' then 0.6
      else 1.0)"

definition calculate_sentiment_score :: "sentiment_analysis \<Rightarrow> real" where
  "calculate_sentiment_score analysis =
     (let percentile = get_or (se_effective_percentile analysis)
                         (get_or (se_similar_ipos_percentile analysis) 50);
          strength = get_or (se_sentiment_strength analysis) ''Moderately Positive'';
          data_confidence = get_or (se_data_confidence analysis) 1;
          strength_multiplier = sentiment_strength_multiplier strength;
          base_score = min 100 (percentile * strength_multiplier);
          confidence_multiplier = 0.6 + 0.4 * max 0 (min 1 data_confidence);
          score = base_score * confidence_multiplier
      in max 30 (min 100 score))"

definition calculate_performance_score :: "performance_predictions \<Rightarrow> real" where
  "calculate_performance_score predictions =
     (let predicted_return = get_or (pp_predicted_first_day_return predictions) 0;
          volatility = get_or (pp_performance_volatility predictions) 0.2;
          return_score = max 0 (min 100 (50 + predicted_return * 100));
          volatility' = max 0 (min 0.5 volatility);
          multiplier = 1.1 - (volatility' * 0.8 / 0.5)
      in min 100 (return_score * multiplier))"

definition calculate_similarity_score :: "SimilarityMatch list \<Rightarrow> real" where
  "calculate_similarity_score similar_ipos =
     (if similar_ipos = [] then 30
      else
        (let avg_similarity = mean_of (map sm_similarity_score similar_ipos);
             quality_bonus = min 20 (real (length similar_ipos) * 5)
         in min 100 (avg_similarity * 100 + quality_bonus)))"

subsection \<open>Score composer\<close>

text \<open>A dictionary keyed by the five components.\<close>

record per_component =
  c_financial :: real
  c_trend :: real
  c_sentiment :: real
  c_performance :: real
  c_similarity :: real

definition base_weights :: per_component where
  "base_weights =
     \<lparr> c_financial = 0.28, c_trend = 0.18, c_sentiment = 0.18,
       c_performance = 0.20, c_similarity = 0.16 \<rparr>"

definition component_confidences ::
  "SimilarityMatch list \<Rightarrow> HistoricalBenchmark list \<Rightarrow> search_analysis \<Rightarrow>
   sentiment_analysis \<Rightarrow> performance_predictions \<Rightarrow> per_component" where
  "component_confidences similar_ipos benchmarks search sentiment predictions =
     \<lparr> c_financial = (if benchmarks \<noteq> [] then 1.0 else 0.7),
       c_trend = max 0.35 (get_or (sa_data_confidence search) 0.6),
       c_sentiment = max 0.35 (get_or (se_data_confidence sentiment) 0.6),
       c_performance =
         min 1.0 (0.6 + 0.08 * real (get_or (pp_historical_sample_size predictions) 0)),
       c_similarity = min 1.0 (0.55 + 0.05 * real (length similar_ipos)) \<rparr>"

definition weighted_weights :: "per_component \<Rightarrow> per_component" where
  "weighted_weights confidences =
     \<lparr> c_financial = c_financial base_weights * max (c_financial confidences) 0.25,
       c_trend = c_trend base_weights * max (c_trend confidences) 0.25,
       c_sentiment = c_sentiment base_weights * max (c_sentiment confidences) 0.25,
       c_performance = c_performance base_weights * max (c_performance confidences) 0.25,
       c_similarity = c_similarity base_weights * max (c_similarity confidences) 0.25 \<rparr>"

definition total_of :: "per_component \<Rightarrow> real" where
  "total_of w = c_financial w + c_trend w + c_sentiment w + c_performance w + c_similarity w"

definition normalized_weights :: "per_component \<Rightarrow> per_component" where
  "normalized_weights weighted =
     (let total_weight = total_of weighted in
      if total_weight = 0 then base_weights
      else \<lparr> c_financial = c_financial weighted / total_weight,
             c_trend = c_trend weighted / total_weight,
             c_sentiment = c_sentiment weighted / total_weight,
             c_performance = c_performance weighted / total_weight,
             c_similarity = c_similarity weighted / total_weight \<rparr>)"

definition base_hype_score :: "per_component \<Rightarrow> per_component \<Rightarrow> real" where
  "base_hype_score scores weights =
     c_financial scores * c_financial weights
     + c_trend scores * c_trend weights
     + c_sentiment scores * c_sentiment weights
     + c_performance scores * c_performance weights
     + c_similarity scores * c_similarity weights"

definition final_hype_score :: "real \<Rightarrow> real" where
  "final_hype_score base =
     (let baseline_boost = 12.5;
          optimism_multiplier = 1.1;
          boosted_hype_score = base * optimism_multiplier + baseline_boost
      in max 35 (min 100 boosted_hype_score))"

text \<open>Substring test (\<^verbatim>\<open>"Positive" in sentiment_strength\<close>).\<close>

fun contains_str :: "string \<Rightarrow> string \<Rightarrow> bool" where
  "contains_str sub [] = (sub = [])"
| "contains_str sub (c # cs) = (take (length sub) (c # cs) = sub \<or> contains_str sub cs)"

definition extract_key_factors ::
  "HistoricalBenchmark list \<Rightarrow> search_analysis \<Rightarrow> sentiment_analysis \<Rightarrow> string list" where
  "extract_key_factors benchmarks search sentiment =
     (let financial_factors =
            concat (map (\<lambda>benchmark.
              if hb_similar_ipos_percentile benchmark > 80
              then [''Strong '' @ hb_metric_name benchmark @ '' vs similar IPOs'']
              else if hb_similar_ipos_percentile benchmark < 30
              then [''Weak '' @ hb_metric_name benchmark @ '' vs similar IPOs'']
              else []) benchmarks);
          trend_strength = get_or (sa_trend_strength search) ''Moderate'';
          trend_factors =
            (if trend_strength \<in> set [''Exceptional'', ''Strong'']
             then [trend_strength @ '' search interest''] else []);
          sentiment_strength = get_or (se_sentiment_strength sentiment) ''Moderately Positive'';
          sentiment_factors =
            (if contains_str ''Positive'' sentiment_strength
             then [sentiment_strength @ '' media sentiment''] else [])
      in take 5 (financial_factors @ trend_factors @ sentiment_factors))"

definition generate_recommendation :: "real \<Rightarrow> string" where
  "generate_recommendation hype_score =
     (if hype_score \<ge> 85 then ''Strong Buy''
      else if hype_score \<ge> 70 then ''Buy''
      else if hype_score \<ge> 50 then ''Hold''
      else ''Sell'')"

definition assess_risk_level :: "performance_predictions \<Rightarrow> string" where
  "assess_risk_level predictions =
     (let volatility = get_or (pp_performance_volatility predictions) 0.2 in
      if volatility > 0.4 then ''High''
      else if volatility > 0.2 then ''Medium''
      else ''Low'')"

text \<open>
  The result dictionary. Two of its keys are left out of the model: \<^verbatim>\<open>analysis\<close>, a
  free text assembled by formatting numbers, and \<^verbatim>\<open>last_updated\<close>, the clock. Neither
  computation raises, and nothing else depends on them. The fallback result has no
  \<^verbatim>\<open>weight_allocation\<close> key.
\<close>

record hype_score_result =
  r_hype_score :: real
  r_component_scores :: per_component
  r_weight_allocation :: "per_component option"
  r_key_factors :: "string list"
  r_recommendation :: string
  r_risk_level :: string
  r_similar_ipos_count :: nat
  r_benchmarks_analyzed :: nat

definition round_components :: "per_component \<Rightarrow> nat \<Rightarrow> per_component" where
  "round_components v ndigits =
     \<lparr> c_financial = py_round (c_financial v) ndigits,
       c_trend = py_round (c_trend v) ndigits,
       c_sentiment = py_round (c_sentiment v) ndigits,
       c_performance = py_round (c_performance v) ndigits,
       c_similarity = py_round (c_similarity v) ndigits \<rparr>"

definition component_scores_of ::
  "SimilarityMatch list \<Rightarrow> HistoricalBenchmark list \<Rightarrow> search_analysis \<Rightarrow>
   sentiment_analysis \<Rightarrow> performance_predictions \<Rightarrow> per_component" where
  "component_scores_of similar_ipos benchmarks search sentiment predictions =
     \<lparr> c_financial = calculate_financial_score benchmarks,
       c_trend = calculate_trend_score search,
       c_sentiment = calculate_sentiment_score sentiment,
       c_performance = calculate_performance_score predictions,
       c_similarity = calculate_similarity_score similar_ipos \<rparr>"

definition generate_data_backed_hype_score ::
  "current_ipo \<Rightarrow> SimilarityMatch list \<Rightarrow> HistoricalBenchmark list \<Rightarrow> search_analysis \<Rightarrow>
   sentiment_analysis \<Rightarrow> performance_predictions \<Rightarrow> hype_score_result" where
  "generate_data_backed_hype_score current similar_ipos benchmarks search sentiment predictions =
     (let scores = component_scores_of similar_ipos benchmarks search sentiment predictions;
          weights = normalized_weights (weighted_weights
                      (component_confidences similar_ipos benchmarks search sentiment
                         predictions));
          final = final_hype_score (base_hype_score scores weights)
      in \<lparr> r_hype_score = py_round final 1,
           r_component_scores = round_components scores 1,
           r_weight_allocation = Some (round_components weights 3),
           r_key_factors = extract_key_factors benchmarks search sentiment,
           r_recommendation = generate_recommendation final,
           r_risk_level = assess_risk_level predictions,
           r_similar_ipos_count = length similar_ipos,
           r_benchmarks_analyzed = length benchmarks \<rparr>)"

definition get_fallback_hype_score :: "current_ipo \<Rightarrow> exn + hype_score_result" where
  "get_fallback_hype_score current =
     Inr \<lparr> r_hype_score = 50,
           r_component_scores =
             \<lparr> c_financial = 50, c_trend = 50, c_sentiment = 50,
               c_performance = 50, c_similarity = 30 \<rparr>,
           r_weight_allocation = None,
           r_key_factors = [''Limited historical data available''],
           r_recommendation = ''Hold'',
           r_risk_level = ''High'',
           r_similar_ipos_count = 0,
           r_benchmarks_analyzed = 0 \<rparr>"

subsection \<open>The entry point\<close>

text \<open>The body of the \<^verbatim>\<open>try\<close> block of \<^verbatim>\<open>analyze_ipo_hype_score\<close>: the six steps
  in order. The only step that can raise on well-typed input is the performance
  prediction.\<close>

definition analysis_steps :: "db \<Rightarrow> current_ipo \<Rightarrow> exn + hype_score_result" where
  "analysis_steps env current =
     (let similar_ipos = find_similar_historical_ipos env current;
          benchmarks = calculate_historical_benchmarks env current similar_ipos;
          search = analyze_search_trends_historically env current similar_ipos;
          sentiment = analyze_sentiment_historically env current similar_ipos
      in case predict_performance_from_history env current similar_ipos of
           Inl e \<Rightarrow> Inl e
         | Inr predictions \<Rightarrow>
             Inr (generate_data_backed_hype_score current similar_ipos benchmarks
                    search sentiment predictions))"

text \<open>\<^verbatim>\<open>except Exception\<close>: whatever the steps raise, the fallback result is
  returned.\<close>

definition analyze_ipo_hype_score :: "db \<Rightarrow> current_ipo \<Rightarrow> exn + hype_score_result" where
  "analyze_ipo_hype_score env current =
     (case analysis_steps env current of
        Inl e \<Rightarrow> get_fallback_hype_score current
      | Inr hype_score_data \<Rightarrow> Inr hype_score_data)"

section \<open>Definitions used to state the properties\<close>

text \<open>The similarity score as the specification words it: the revenue-growth weight is
  given whenever the relative difference is below 20%.\<close>

definition spec_similarity_score ::
  "string option \<Rightarrow> string \<Rightarrow> string \<Rightarrow> real \<Rightarrow> ipo_row \<Rightarrow> real" where
  "spec_similarity_score market_cap_category sector industry revenue_growth row =
     (if row_market_cap_category row = market_cap_category then 0.3 else 0)
     + (if row_sector row = Some sector then 0.2 else 0)
     + (if row_industry row = Some industry then 0.2 else 0)
     + (case row_revenue_growth_yoy row of
          None \<Rightarrow> 0
        | Some g \<Rightarrow>
            if \<bar>g - revenue_growth\<bar> / max \<bar>revenue_growth\<bar> 1 < 0.2 then 0.3 else 0)"

text \<open>The same sum with the guard of the code: the revenue-growth weight needs both
  growth rates to be present and non-zero.\<close>

definition guarded_similarity_score ::
  "string option \<Rightarrow> string \<Rightarrow> string \<Rightarrow> real \<Rightarrow> ipo_row \<Rightarrow> real" where
  "guarded_similarity_score market_cap_category sector industry revenue_growth row =
     (if row_market_cap_category row = market_cap_category then 0.3 else 0)
     + (if row_sector row = Some sector then 0.2 else 0)
     + (if row_industry row = Some industry then 0.2 else 0)
     + (case row_revenue_growth_yoy row of
          None \<Rightarrow> 0
        | Some g \<Rightarrow>
            if g \<noteq> 0 \<and> revenue_growth \<noteq> 0
               \<and> \<bar>g - revenue_growth\<bar> / max \<bar>revenue_growth\<bar> 1 < 0.2
            then 0.3 else 0)"

text \<open>The rows the matcher scores: what the candidate query returned, none without a
  pool or when the query raised.\<close>

definition candidate_rows :: "db \<Rightarrow> current_ipo \<Rightarrow> ipo_row list" where
  "candidate_rows env current =
     (if \<not> get_db_pool env then []
      else
        (let sector = get_or (ipo_sector current) [] in
         case fetch_candidates env
                (market_cap_category_of (get_or (ipo_implied_market_cap current) 0))
                (if sector \<noteq> [] then Some sector else None) of
           Inl e \<Rightarrow> []
         | Inr rows \<Rightarrow> rows))"

text \<open>The performance sub-score as the specification words it: the volatility,
  clamped to \<open>[0, 0.5]\<close>, is mapped linearly to a multiplier that is 1.1 at 0 and 0.7
  at 0.5.\<close>

definition spec_volatility_multiplier :: "real \<Rightarrow> real" where
  "spec_volatility_multiplier volatility =
     1.1 - max 0 (min 0.5 volatility) * ((1.1 - 0.7) / 0.5)"

definition spec_performance_score :: "real \<Rightarrow> real \<Rightarrow> real" where
  "spec_performance_score predicted_first_day_return volatility =
     min 100 (max 0 (min 100 (50 + predicted_first_day_return * 100))
              * spec_volatility_multiplier volatility)"

text \<open>The multiplier of the strength bucket a percentile falls in: Exceptional from
  90, Strong from 75, Moderate from 50, Weak below.\<close>

definition bucket_multiplier :: "real \<Rightarrow> real" where
  "bucket_multiplier percentile =
     (if percentile \<ge> 90 then 1.2
      else if percentile \<ge> 75 then 1.1
      else if percentile \<ge> 50 then 1.0
      else 0.8)"

text \<open>The trend sub-score as the specification words it: the bucket is the one of the
  peer-pool percentile, which is also the effective percentile.\<close>

definition spec_trend_score :: "real \<Rightarrow> real \<Rightarrow> real" where
  "spec_trend_score effective_percentile confidence =
     max 35 (min 100 (effective_percentile * bucket_multiplier effective_percentile)
             * (0.6 + 0.4 * confidence))"

text \<open>The weight allocation as the specification words it: each base weight scaled by
  the confidence of its component and divided by the sum of the scaled weights, the
  base weights themselves when that sum is zero.\<close>

definition spec_weight_allocation :: "per_component \<Rightarrow> per_component" where
  "spec_weight_allocation confidences =
     (let scaled_sum = 0.28 * c_financial confidences + 0.18 * c_trend confidences
                       + 0.18 * c_sentiment confidences + 0.20 * c_performance confidences
                       + 0.16 * c_similarity confidences
      in if scaled_sum = 0
         then \<lparr> c_financial = 0.28, c_trend = 0.18, c_sentiment = 0.18,
                c_performance = 0.20, c_similarity = 0.16 \<rparr>
         else \<lparr> c_financial = 0.28 * c_financial confidences / scaled_sum,
                c_trend = 0.18 * c_trend confidences / scaled_sum,
                c_sentiment = 0.18 * c_sentiment confidences / scaled_sum,
                c_performance = 0.20 * c_performance confidences / scaled_sum,
                c_similarity = 0.16 * c_similarity confidences / scaled_sum \<rparr>)"

text \<open>The corpus is empty: every query of the service returns no row.\<close>

definition corpus_empty :: "db \<Rightarrow> bool" where
  "corpus_empty env =
     ((\<forall>c s. fetch_candidates env c s = Inr [])
      \<and> fetch_revenue_growth env = Inr []
      \<and> fetch_gross_margin env = Inr []
      \<and> fetch_market_cap env = Inr []
      \<and> fetch_trend_scores env = Inr []
      \<and> (\<forall>ts. fetch_trend_scores_for env ts = Inr [])
      \<and> fetch_sentiment_scores env = Inr []
      \<and> (\<forall>ts. fetch_sentiment_scores_for env ts = Inr [])
      \<and> fetch_performance env = Inr [])"

section \<open>Example inputs\<close>

definition alpha_row :: ipo_row where
  "alpha_row =
     \<lparr> row_ticker = ''ALPH'', row_name = ''Alpha'', row_sector = Some ''Tech'',
       row_industry = Some ''Software'', row_revenue_growth_yoy = Some 0.1,
       row_gross_margin = Some 0.6, row_operating_margin = None,
       row_market_cap_at_ipo = Some 5000000000, row_first_day_return = Some 0.2,
       row_first_week_return = Some 0.1, row_first_month_return = Some 0.3,
       row_market_cap_category = Some ''mid'', row_growth_stage = None \<rparr>"

definition beta_row :: ipo_row where
  "beta_row =
     \<lparr> row_ticker = ''BETA'', row_name = ''Beta'', row_sector = Some ''Tech'',
       row_industry = Some ''Hardware'', row_revenue_growth_yoy = None,
       row_gross_margin = Some 0.4, row_operating_margin = None,
       row_market_cap_at_ipo = Some 8000000000, row_first_day_return = Some 0.1,
       row_first_week_return = None, row_first_month_return = None,
       row_market_cap_category = None, row_growth_stage = None \<rparr>"

definition gamma_row :: ipo_row where
  "gamma_row =
     \<lparr> row_ticker = ''GAMM'', row_name = ''Gamma'', row_sector = Some ''Tech'',
       row_industry = Some ''Software'', row_revenue_growth_yoy = Some 0.5,
       row_gross_margin = None, row_operating_margin = None,
       row_market_cap_at_ipo = Some 3000000000, row_first_day_return = Some 0.4,
       row_first_week_return = Some 0.2, row_first_month_return = Some 0.1,
       row_market_cap_category = Some ''mid'', row_growth_stage = None \<rparr>"

text \<open>A corpus with three candidates, four trend samples (two of the peers') and one
  sentiment sample.\<close>

definition example_db :: db where
  "example_db =
     \<lparr> pool_available = True,
       fetch_candidates = (\<lambda>c s. Inr [beta_row, alpha_row, gamma_row]),
       fetch_revenue_growth = Inr [0.05, 0.1, 0.5],
       fetch_gross_margin = Inr [0.4, 0.6],
       fetch_market_cap = Inr [3000000000, 5000000000, 8000000000],
       fetch_trend_scores = Inr [Some 10, Some 20, None, Some 30, Some 40],
       fetch_trend_scores_for = (\<lambda>ts. Inr [Some 40, Some 60]),
       fetch_sentiment_scores = Inr [Some 0.1],
       fetch_sentiment_scores_for = (\<lambda>ts. Inr []),
       fetch_performance =
         Inr [(Some 0.2, Some 0.1, Some 0.3), (Some 0.1, None, None),
              (Some 0.4, Some 0.2, Some 0.1)] \<rparr>"

text \<open>The same corpus without any row.\<close>

definition empty_db :: db where
  "empty_db =
     \<lparr> pool_available = True,
       fetch_candidates = (\<lambda>c s. Inr []),
       fetch_revenue_growth = Inr [],
       fetch_gross_margin = Inr [],
       fetch_market_cap = Inr [],
       fetch_trend_scores = Inr [],
       fetch_trend_scores_for = (\<lambda>ts. Inr []),
       fetch_sentiment_scores = Inr [],
       fetch_sentiment_scores_for = (\<lambda>ts. Inr []),
       fetch_performance = Inr [] \<rparr>"

definition example_ipo :: current_ipo where
  "example_ipo =
     \<lparr> ipo_sector = Some ''Tech'', ipo_industry = Some ''Software'',
       ipo_implied_market_cap = Some 5000000000, ipo_revenue_growth_yoy = Some 0.11,
       ipo_gross_margin = Some 0.5, ipo_trend_score = Some 50,
       ipo_trend_average_interest = Some 40, ipo_trend_recent_interest = Some 45,
       ipo_trend_data_available = Some True, ipo_trend_error = None,
       ipo_sentiment_score = Some 0.15, ipo_news_total_articles = Some 12,
       ipo_news_data_available = Some True, ipo_news_error = None \<rparr>"

text \<open>A company whose external sources all reported errors.\<close>

definition failed_ipo :: current_ipo where
  "failed_ipo =
     \<lparr> ipo_sector = Some [], ipo_industry = Some [],
       ipo_implied_market_cap = Some 0, ipo_revenue_growth_yoy = Some 0,
       ipo_gross_margin = Some 0, ipo_trend_score = Some 0,
       ipo_trend_average_interest = Some 0, ipo_trend_recent_interest = Some 0,
       ipo_trend_data_available = Some False, ipo_trend_error = Some ''timeout'',
       ipo_sentiment_score = Some 0, ipo_news_total_articles = Some 0,
       ipo_news_data_available = Some False, ipo_news_error = Some ''timeout'' \<rparr>"

text \<open>Predictions with a flat expected return and a volatility of one half.\<close>

definition volatile_predictions :: performance_predictions where
  "volatile_predictions =
     \<lparr> pp_predicted_first_day_return = Some 0,
       pp_predicted_first_week_return = Some 0,
       pp_predicted_first_month_return = Some 0,
       pp_performance_volatility = Some 0.5,
       pp_historical_sample_size = Some 12,
       pp_risk_level = Some ''High'' \<rparr>"

text \<open>A company without search-trend data.\<close>

definition quiet_ipo :: current_ipo where
  "quiet_ipo =
     \<lparr> ipo_sector = Some ''Tech'', ipo_industry = Some ''Software'',
       ipo_implied_market_cap = Some 5000000000, ipo_revenue_growth_yoy = Some 0.11,
       ipo_gross_margin = Some 0.5, ipo_trend_score = Some 0,
       ipo_trend_average_interest = Some 0, ipo_trend_recent_interest = Some 0,
       ipo_trend_data_available = Some False, ipo_trend_error = None,
       ipo_sentiment_score = Some 0.15, ipo_news_total_articles = Some 12,
       ipo_news_data_available = Some True, ipo_news_error = None \<rparr>"

section \<open>Properties\<close>

subsection \<open>Percentile rank\<close>

lemma length_filter_sort:
  "length (filter P (sort xs)) = length (filter P (xs :: real list))"
proof -
  have "mset (filter P (sort xs)) = mset (filter P xs)"
    by simp
  then show ?thesis
    by (metis size_mset)
qed

lemma percentile_rank_count:
  "data \<noteq> [] \<Longrightarrow>
   calculate_percentile_rank v data =
     real (length (filter (\<lambda>x. x < v) data)) / real (length data) * 100"
  by (simp add: calculate_percentile_rank_def Let_def length_filter_sort)

lemma percentile_rank_below_100:
  assumes "data \<noteq> []" and "v \<le> Max (set data)"
  shows "0 \<le> calculate_percentile_rank v data \<and> calculate_percentile_rank v data < 100"
proof -
  let ?below = "filter (\<lambda>x. x < v) data"
  have "Max (set data) \<in> set data"
    using assms(1) by (simp add: Max_in)
  moreover have "\<not> Max (set data) < v"
    using assms(2) by simp
  ultimately have lt: "length ?below < length data"
    by (rule length_filter_less)
  have pos: "0 < real (length data)"
    using assms(1) by simp
  define q where "q = real (length ?below) / real (length data)"
  have "q < 1"
    unfolding q_def using lt pos by simp
  moreover have "0 \<le> q"
    unfolding q_def by simp
  ultimately have bounds: "0 \<le> q * 100 \<and> q * 100 < 100"
    by simp
  have eq: "calculate_percentile_rank v data = q * 100"
    unfolding q_def by (rule percentile_rank_count [OF assms(1)])
  show ?thesis
    using bounds by (simp only: eq)
qed

lemma percentile_rank_min:
  assumes "data \<noteq> []"
  shows "calculate_percentile_rank (Min (set data)) data = 0"
proof -
  have "filter (\<lambda>x. x < Min (set data)) data = []"
    by (simp add: filter_empty_conv leD)
  then show ?thesis
    using percentile_rank_count [OF assms] by simp
qed

text \<open>
  Claim C3. The percentile rank of \<open>v\<close> in a non-empty dataset \<open>D\<close> is the number
  of elements of \<open>D\<close> strictly below \<open>v\<close>, divided by the length of \<open>D\<close>, times 100.
  So the rank of the minimum of a non-empty \<open>D\<close> is 0, the rank of any \<open>x\<close> that is
  at most the maximum of \<open>D\<close> lies in \<open>[0, 100)\<close> when \<open>D\<close> has more than one
  element and its values are distinct, and the rank in the empty dataset is 50.
\<close>

theorem percentile_rank_spec:
  "(D \<noteq> [] \<longrightarrow>
      calculate_percentile_rank v D =
        real (length (filter (\<lambda>x. x < v) D)) / real (length D) * 100)
   \<and> (D \<noteq> [] \<longrightarrow> calculate_percentile_rank (Min (set D)) D = 0)
   \<and> (1 < length D \<and> distinct D \<and> x \<le> Max (set D) \<longrightarrow>
        0 \<le> calculate_percentile_rank x D \<and> calculate_percentile_rank x D < 100)
   \<and> calculate_percentile_rank v [] = 50"
proof -
  have "calculate_percentile_rank v [] = 50"
    by (simp add: calculate_percentile_rank_def)
  moreover have "1 < length D \<Longrightarrow> D \<noteq> []"
    by auto
  ultimately show ?thesis
    using percentile_rank_count percentile_rank_min percentile_rank_below_100
    by blast
qed

theorem percentile_rank_spec_witness:
  "calculate_percentile_rank 2 [3, 1, 2] = 1 / 3 * 100
   \<and> calculate_percentile_rank 1 [3, 1, 2] = 0
   \<and> 0 \<le> calculate_percentile_rank 3 [3, 1, 2]
   \<and> calculate_percentile_rank 3 [3, 1, 2] < 100
   \<and> calculate_percentile_rank 2 [] = 50"
  using percentile_rank_spec [of "[3, 1, 2]" 2 3]
  by simp

subsection \<open>Similarity matcher\<close>

lemma score_row_sum:
  "fst (score_row c s i g row) = guarded_similarity_score c s i g row"
  by (simp add: score_row_def guarded_similarity_score_def revenue_growth_matches_def
      split: option.split)

lemma match_row_Some:
  assumes "match_row c s i g row = Some m"
  shows "sm_similarity_score m = fst (score_row c s i g row)"
    and "0.3 \<le> sm_similarity_score m"
    and "sm_ticker m = row_ticker row"
    and "sm_market_cap m = None"
  using assms
  by (auto simp: match_row_def Let_def split: prod.splits if_splits)

lemma match_rows_sound:
  "m \<in> set (match_rows c s i g rows) \<Longrightarrow> \<exists>row \<in> set rows. match_row c s i g row = Some m"
  by (induction rows) (auto split: option.splits)

lemma sort_by_similarity_set: "set (sort_by_similarity ms) = set ms"
  by (simp add: sort_by_similarity_def)

lemma sort_by_similarity_descending:
  "sorted_wrt (\<lambda>a b. sm_similarity_score b \<le> sm_similarity_score a) (sort_by_similarity ms)"
proof -
  have "sorted (map (\<lambda>m. - sm_similarity_score m) (sort_by_similarity ms))"
    unfolding sort_by_similarity_def by (rule sorted_sort_key)
  then show ?thesis
    by (simp add: sorted_map)
qed

lemma find_similar_eq:
  "find_similar_historical_ipos env current =
     take 10 (sort_by_similarity (match_rows
       (market_cap_category_of (get_or (ipo_implied_market_cap current) 0))
       (get_or (ipo_sector current) [])
       (get_or (ipo_industry current) [])
       (get_or (ipo_revenue_growth_yoy current) 0)
       (candidate_rows env current)))"
  by (simp add: find_similar_historical_ipos_def candidate_rows_def Let_def
      sort_by_similarity_def split: sum.split)

lemma find_similar_member:
  assumes "m \<in> set (find_similar_historical_ipos env current)"
  shows "\<exists>row \<in> set (candidate_rows env current).
           match_row (market_cap_category_of (get_or (ipo_implied_market_cap current) 0))
             (get_or (ipo_sector current) []) (get_or (ipo_industry current) [])
             (get_or (ipo_revenue_growth_yoy current) 0) row = Some m"
proof -
  from assms have "m \<in> set (sort_by_similarity (match_rows
       (market_cap_category_of (get_or (ipo_implied_market_cap current) 0))
       (get_or (ipo_sector current) [])
       (get_or (ipo_industry current) [])
       (get_or (ipo_revenue_growth_yoy current) 0)
       (candidate_rows env current)))"
    unfolding find_similar_eq by (rule in_set_takeD)
  then show ?thesis
    unfolding sort_by_similarity_set by (rule match_rows_sound)
qed

text \<open>
  Claim C4, as amended. Whatever the candidate query returns, the matcher returns at
  most 10 matches; every returned match has a similarity score of at least 0.30 and
  is the match of a candidate row, with that row's score; the returned list is in
  descending order of the score; and the score of a candidate is the sum of the
  weights 0.30 (same market-cap category), 0.20 (same sector), 0.20 (same industry)
  and 0.30 (both revenue growth rates present and non-zero, with a relative
  difference below 0.2).
\<close>

theorem similarity_matcher_guarded:
  "length (find_similar_historical_ipos env current) \<le> 10
   \<and> (\<forall>m \<in> set (find_similar_historical_ipos env current).
         0.3 \<le> sm_similarity_score m
         \<and> (\<exists>row \<in> set (candidate_rows env current).
               sm_ticker m = row_ticker row
               \<and> sm_similarity_score m =
                   guarded_similarity_score
                     (market_cap_category_of (get_or (ipo_implied_market_cap current) 0))
                     (get_or (ipo_sector current) [])
                     (get_or (ipo_industry current) [])
                     (get_or (ipo_revenue_growth_yoy current) 0) row))
   \<and> sorted_wrt (\<lambda>a b. sm_similarity_score b \<le> sm_similarity_score a)
        (find_similar_historical_ipos env current)
   \<and> fst (score_row c s i g row) = guarded_similarity_score c s i g row"
proof (intro conjI ballI)
  show "length (find_similar_historical_ipos env current) \<le> 10"
    unfolding find_similar_eq by simp
next
  fix m assume mem: "m \<in> set (find_similar_historical_ipos env current)"
  from find_similar_member [OF mem]
  obtain r where r: "r \<in> set (candidate_rows env current)"
    "match_row (market_cap_category_of (get_or (ipo_implied_market_cap current) 0))
       (get_or (ipo_sector current) []) (get_or (ipo_industry current) [])
       (get_or (ipo_revenue_growth_yoy current) 0) r = Some m" ..
  show "0.3 \<le> sm_similarity_score m"
    using match_row_Some(2) [OF r(2)] .
  show "\<exists>row \<in> set (candidate_rows env current).
          sm_ticker m = row_ticker row
          \<and> sm_similarity_score m =
              guarded_similarity_score
                (market_cap_category_of (get_or (ipo_implied_market_cap current) 0))
                (get_or (ipo_sector current) [])
                (get_or (ipo_industry current) [])
                (get_or (ipo_revenue_growth_yoy current) 0) row"
  proof (rule bexI [OF _ r(1)])
    show "sm_ticker m = row_ticker r
          \<and> sm_similarity_score m =
              guarded_similarity_score
                (market_cap_category_of (get_or (ipo_implied_market_cap current) 0))
                (get_or (ipo_sector current) [])
                (get_or (ipo_industry current) [])
                (get_or (ipo_revenue_growth_yoy current) 0) r"
      using match_row_Some(1,3) [OF r(2)] by (simp only: score_row_sum simp_thms)
  qed
next
  show "sorted_wrt (\<lambda>a b. sm_similarity_score b \<le> sm_similarity_score a)
          (find_similar_historical_ipos env current)"
    unfolding find_similar_eq
    by (rule sorted_wrt_take) (rule sort_by_similarity_descending)
next
  show "fst (score_row c s i g row) = guarded_similarity_score c s i g row"
    by (rule score_row_sum)
qed


lemma example_matches:
  "map sm_ticker (find_similar_historical_ipos example_db example_ipo) = [''ALPH'', ''GAMM'']"
  by code_simp

theorem similarity_matcher_guarded_witness:
  "find_similar_historical_ipos example_db example_ipo \<noteq> []
   \<and> length (find_similar_historical_ipos example_db example_ipo) \<le> 10
   \<and> 0.3 \<le> sm_similarity_score (hd (find_similar_historical_ipos example_db example_ipo))
   \<and> sorted_wrt (\<lambda>a b. sm_similarity_score b \<le> sm_similarity_score a)
        (find_similar_historical_ipos example_db example_ipo)
   \<and> fst (score_row (Some ''mid'') ''Tech'' ''Software'' 0.11 alpha_row) = 1"
proof -
  have ne: "find_similar_historical_ipos example_db example_ipo \<noteq> []"
    using example_matches by auto
  then have "hd (find_similar_historical_ipos example_db example_ipo)
      \<in> set (find_similar_historical_ipos example_db example_ipo)"
    by simp
  moreover have "guarded_similarity_score (Some ''mid'') ''Tech'' ''Software'' 0.11 alpha_row = 1"
    by code_simp
  ultimately show ?thesis
    using ne similarity_matcher_guarded
      [of example_db example_ipo "Some ''mid''" "''Tech''" "''Software''" "0.11" alpha_row]
    by simp
qed

text \<open>
  Claim C4, as stated, fails where the company's revenue growth is zero: the row
  \<open>alpha_row\<close> matches on category, sector and industry and its growth rate is
  within 0.2 of zero, so the stated sum is 1, while the code scores it 0.7.
\<close>

theorem similarity_score_counterexample:
  "fst (score_row (Some ''mid'') ''Tech'' ''Software'' 0 alpha_row) = 0.7
   \<and> spec_similarity_score (Some ''mid'') ''Tech'' ''Software'' 0 alpha_row = 1"
  by code_simp

subsection \<open>Peer market caps\<close>

lemma peer_market_caps_empty:
  "List.map_filter sm_market_cap (find_similar_historical_ipos env current) = []"
proof -
  have "sm_market_cap m = None"
    if mem: "m \<in> set (find_similar_historical_ipos env current)" for m
  proof -
    from find_similar_member [OF mem]
    obtain r where
      "match_row (market_cap_category_of (get_or (ipo_implied_market_cap current) 0))
         (get_or (ipo_sector current) []) (get_or (ipo_industry current) [])
         (get_or (ipo_revenue_growth_yoy current) 0) r = Some m" ..
    then show ?thesis
      by (rule match_row_Some(4))
  qed
  then show ?thesis
    by (simp add: List.map_filter_def filter_empty_conv)
qed

text \<open>
  Claim C9 at a concrete input. Both peers found for \<open>example_ipo\<close> come from rows
  with a known market cap, yet neither match carries it, and the market-cap
  benchmark reports the statistics of an empty peer set: median, mean and standard
  deviation 0 and percentile 50.
\<close>

theorem peer_market_cap_dropped:
  "map sm_ticker (find_similar_historical_ipos example_db example_ipo) = [''ALPH'', ''GAMM'']
   \<and> row_market_cap_at_ipo alpha_row = Some 5000000000
   \<and> row_market_cap_at_ipo gamma_row = Some 3000000000
   \<and> map sm_market_cap (find_similar_historical_ipos example_db example_ipo) = [None, None]
   \<and> map (\<lambda>b. (hb_metric_name b, hb_similar_ipos_median b, hb_similar_ipos_mean b,
                  hb_similar_ipos_std b, hb_similar_ipos_percentile b))
         (drop 2 (calculate_historical_benchmarks example_db example_ipo
            (find_similar_historical_ipos example_db example_ipo)))
       = [(''Market Cap'', 0, 0, 0, 50)]"
  by code_simp

subsection \<open>Performance sub-score\<close>

text \<open>
  Claim C6 at a concrete input. For a predicted first-day return of 0 the return
  score is 50; at volatility 0.5 the claim's multiplier is 0.7 and the sub-score 35,
  while the code multiplies by \<open>1.1 - 0.5 * 0.8 / 0.5 = 0.3\<close> and returns 15.
\<close>

theorem performance_multiplier_at_half:
  "calculate_performance_score volatile_predictions = 15
   \<and> spec_performance_score 0 0.5 = 35"
  by code_simp

subsection \<open>Trend analysis\<close>

lemma trend_pools_nonempty:
  "fst (trend_pools env similar_ipos) \<noteq> [] \<and> snd (trend_pools env similar_ipos) \<noteq> []"
  by (simp add: trend_pools_def Let_def split: prod.split)

lemma sentiment_pools_nonempty:
  "fst (sentiment_pools env similar_ipos) \<noteq> [] \<and> snd (sentiment_pools env similar_ipos) \<noteq> []"
  by (simp add: sentiment_pools_def Let_def split: prod.split)

lemma trend_fallback_source:
  "sa_fallback_source (analyze_search_trends_historically env current similar_ipos) = Some ''live''
   \<or> sa_fallback_source (analyze_search_trends_historically env current similar_ipos) = Some ''similar''"
proof -
  obtain h s where pools: "trend_pools env similar_ipos = (h, s)"
    by (cases "trend_pools env similar_ipos")
  with trend_pools_nonempty [of env similar_ipos] have "s \<noteq> []"
    by simp
  then show ?thesis
    by (simp add: analyze_search_trends_historically_def pools Let_def)
qed

lemma sentiment_fallback_source:
  "se_fallback_source (analyze_sentiment_historically env current similar_ipos) = Some ''live''
   \<or> se_fallback_source (analyze_sentiment_historically env current similar_ipos) = Some ''similar''"
proof -
  obtain h s where pools: "sentiment_pools env similar_ipos = (h, s)"
    by (cases "sentiment_pools env similar_ipos")
  with sentiment_pools_nonempty [of env similar_ipos] have "s \<noteq> []"
    by simp
  then show ?thesis
    by (simp add: analyze_sentiment_historically_def pools Let_def)
qed

text \<open>
  Claim C10. The fallback source reported by the trend analysis and by the sentiment
  analysis is \<open>live\<close> or \<open>similar\<close>, never \<open>historical\<close>: when the
  fallback branch runs, the historical pool has been given a default element and the
  peer pool has been replaced by the historical pool where it was empty, so neither
  pool is empty and the branch that reports \<open>historical\<close> is never taken.
\<close>

theorem fallback_source_never_historical:
  "(sa_fallback_source (analyze_search_trends_historically env current similar_ipos) = Some ''live''
    \<or> sa_fallback_source (analyze_search_trends_historically env current similar_ipos)
         = Some ''similar'')
   \<and> sa_fallback_source (analyze_search_trends_historically env current similar_ipos)
         \<noteq> Some ''historical''
   \<and> (se_fallback_source (analyze_sentiment_historically env current similar_ipos) = Some ''live''
      \<or> se_fallback_source (analyze_sentiment_historically env current similar_ipos)
           = Some ''similar'')
   \<and> se_fallback_source (analyze_sentiment_historically env current similar_ipos)
         \<noteq> Some ''historical''
   \<and> fst (trend_pools env similar_ipos) \<noteq> []
   \<and> snd (trend_pools env similar_ipos) \<noteq> []
   \<and> fst (sentiment_pools env similar_ipos) \<noteq> []
   \<and> snd (sentiment_pools env similar_ipos) \<noteq> []"
  using trend_fallback_source [of env current similar_ipos]
    sentiment_fallback_source [of env current similar_ipos]
    trend_pools_nonempty [of env similar_ipos]
    sentiment_pools_nonempty [of env similar_ipos]
  by auto

theorem fallback_source_never_historical_witness:
  "sa_fallback_source (analyze_search_trends_historically example_db quiet_ipo [])
     = Some ''similar''
   \<and> se_fallback_source (analyze_sentiment_historically example_db quiet_ipo [])
     = Some ''live''
   \<and> snd (trend_pools example_db []) = [10, 20, 30, 40]"
proof -
  have "sa_fallback_source (analyze_search_trends_historically example_db quiet_ipo [])
          \<noteq> Some ''live''"
    by code_simp
  moreover have "se_fallback_source (analyze_sentiment_historically example_db quiet_ipo [])
          \<noteq> Some ''similar''"
    by code_simp
  moreover have "snd (trend_pools example_db []) = [10, 20, 30, 40]"
    by code_simp
  ultimately show ?thesis
    using fallback_source_never_historical [of example_db quiet_ipo "[]"]
    by simp
qed

text \<open>
  Claim C8 at a concrete input. The company has no trend data and no peers, so the
  peer query is not run and the fetched peer pool is empty; the substitute, 25, is the
  median of the full historical pool. The analysis reports the fallback source
  \<open>similar\<close> with confidence 0.75, where the claim has \<open>historical\<close> and 0.60.
\<close>

theorem historical_fallback_reported_as_similar:
  "ipo_trend_data_available quiet_ipo = Some False
   \<and> fetch_score_pools (get_db_pool example_db) (fetch_trend_scores example_db)
         (fetch_trend_scores_for example_db) [] = ([10, 20, 30, 40], [])
   \<and> median_of [10, 20, 30, 40] = 25
   \<and> sa_effective_trend_score (analyze_search_trends_historically example_db quiet_ipo [])
       = Some 25
   \<and> sa_used_historical_fallback (analyze_search_trends_historically example_db quiet_ipo [])
       = Some True
   \<and> sa_fallback_source (analyze_search_trends_historically example_db quiet_ipo [])
       = Some ''similar''
   \<and> sa_data_confidence (analyze_search_trends_historically example_db quiet_ipo [])
       = Some 0.75"
  by code_simp

theorem historical_fallback_reported_as_similar_witness:
  "sa_fallback_source (analyze_search_trends_historically example_db quiet_ipo [])
     \<noteq> Some ''historical''
   \<and> sa_data_confidence (analyze_search_trends_historically example_db quiet_ipo [])
     \<noteq> Some 0.6"
  using historical_fallback_reported_as_similar
  by simp

subsection \<open>Trend sub-score\<close>

lemma confidence_scaling_le:
  fixes b c :: real
  assumes "b \<le> 100" and "0 \<le> c" and "c \<le> 1"
  shows "b * (0.6 + 0.4 * c) \<le> 100"
proof (cases "0 \<le> b")
  case True
  have "b * (0.6 + 0.4 * c) \<le> b * 1"
    using True assms(3) by (intro mult_left_mono) auto
  with assms(1) show ?thesis by simp
next
  case False
  have "0 \<le> 0.6 + 0.4 * c"
    using assms(2) by simp
  with False have "b * (0.6 + 0.4 * c) \<le> 0"
    by (simp add: mult_nonpos_nonneg)
  then show ?thesis by simp
qed

lemma calculate_trend_score_eq:
  assumes "sa_effective_percentile a = Some p" and "sa_trend_strength a = Some st"
    and "sa_data_confidence a = Some c" and "0 \<le> c" and "c \<le> 1"
  shows "calculate_trend_score a =
           max 35 (min 100 (p * trend_strength_multiplier st) * (0.6 + 0.4 * c))"
proof -
  have "min 100 (p * trend_strength_multiplier st) * (0.6 + 0.4 * c) \<le> 100"
    using assms(4,5) by (intro confidence_scaling_le) auto
  then show ?thesis
    using assms by (simp add: calculate_trend_score_def Let_def)
qed

lemma trend_strength_bucket:
  "trend_strength_multiplier
     (if p \<ge> 90 then ''Exceptional'' else if p \<ge> 75 then ''Strong''
      else if p \<ge> 50 then ''Moderate'' else ''Weak'') = bucket_multiplier p"
  by (simp add: trend_strength_multiplier_def bucket_multiplier_def)

lemma analyze_search_trends_confidence:
  "sa_data_confidence (analyze_search_trends_historically env current similar_ipos) = Some 1
   \<or> sa_data_confidence (analyze_search_trends_historically env current similar_ipos) = Some 0.75"
proof -
  obtain h s where pools: "trend_pools env similar_ipos = (h, s)"
    by (cases "trend_pools env similar_ipos")
  with trend_pools_nonempty [of env similar_ipos] have "s \<noteq> []"
    by simp
  then show ?thesis
    by (simp add: analyze_search_trends_historically_def pools Let_def)
qed

lemma analyze_search_trends_effective:
  "sa_effective_trend_score (analyze_search_trends_historically env current similar_ipos) \<noteq> None"
proof -
  obtain h s where pools: "trend_pools env similar_ipos = (h, s)"
    by (cases "trend_pools env similar_ipos")
  show ?thesis
    by (simp add: analyze_search_trends_historically_def pools Let_def)
qed

lemma analyze_search_trends_fields:
  fixes env current similar_ipos
  defines "a \<equiv> analyze_search_trends_historically env current similar_ipos"
  defines "eff \<equiv> the (sa_effective_trend_score a)"
  shows "sa_effective_percentile a
           = Some (calculate_percentile_rank eff (snd (trend_pools env similar_ipos)))"
    and "sa_historical_percentile a
           = Some (calculate_percentile_rank eff (fst (trend_pools env similar_ipos)))"
    and "sa_trend_strength a
           = Some (if calculate_percentile_rank eff (fst (trend_pools env similar_ipos)) \<ge> 90
                   then ''Exceptional''
                   else if calculate_percentile_rank eff (fst (trend_pools env similar_ipos)) \<ge> 75
                   then ''Strong''
                   else if calculate_percentile_rank eff (fst (trend_pools env similar_ipos)) \<ge> 50
                   then ''Moderate'' else ''Weak'')"
proof -
  obtain h s where pools: "trend_pools env similar_ipos = (h, s)"
    by (cases "trend_pools env similar_ipos")
  show "sa_effective_percentile a
           = Some (calculate_percentile_rank eff (snd (trend_pools env similar_ipos)))"
    unfolding a_def eff_def
    by (simp add: analyze_search_trends_historically_def pools Let_def)
  show "sa_historical_percentile a
           = Some (calculate_percentile_rank eff (fst (trend_pools env similar_ipos)))"
    unfolding a_def eff_def
    by (simp add: analyze_search_trends_historically_def pools Let_def)
  show "sa_trend_strength a
           = Some (if calculate_percentile_rank eff (fst (trend_pools env similar_ipos)) \<ge> 90
                   then ''Exceptional''
                   else if calculate_percentile_rank eff (fst (trend_pools env similar_ipos)) \<ge> 75
                   then ''Strong''
                   else if calculate_percentile_rank eff (fst (trend_pools env similar_ipos)) \<ge> 50
                   then ''Moderate'' else ''Weak'')"
    unfolding a_def eff_def
    by (simp add: analyze_search_trends_historically_def pools Let_def)
qed

text \<open>
  Claim C7, as amended. For every trend analysis the service produces, the trend
  sub-score is \<open>base * (0.6 + 0.4 * confidence)\<close> floored at 35, where
  \<open>base = min(100, effective_percentile * strength_multiplier)\<close>, the effective
  percentile is the percentile of the effective trend score in the peer pool, and the
  strength bucket (Exceptional from 90 with 1.2, Strong from 75 with 1.1, Moderate
  from 50 with 1.0, else Weak with 0.8) is the one of its percentile in the full
  historical pool.
\<close>

theorem trend_score_by_historical_bucket:
  "\<exists>eff conf.
     sa_effective_trend_score (analyze_search_trends_historically env current similar_ipos)
       = Some eff
     \<and> sa_data_confidence (analyze_search_trends_historically env current similar_ipos)
         = Some conf
     \<and> sa_effective_percentile (analyze_search_trends_historically env current similar_ipos)
         = Some (calculate_percentile_rank eff (snd (trend_pools env similar_ipos)))
     \<and> sa_historical_percentile (analyze_search_trends_historically env current similar_ipos)
         = Some (calculate_percentile_rank eff (fst (trend_pools env similar_ipos)))
     \<and> calculate_trend_score (analyze_search_trends_historically env current similar_ipos)
         = max 35
             (min 100
                (calculate_percentile_rank eff (snd (trend_pools env similar_ipos))
                 * bucket_multiplier
                     (calculate_percentile_rank eff (fst (trend_pools env similar_ipos))))
              * (0.6 + 0.4 * conf))"
proof -
  let ?a = "analyze_search_trends_historically env current similar_ipos"
  obtain eff where eff: "sa_effective_trend_score ?a = Some eff"
    using analyze_search_trends_effective [of env current similar_ipos] by auto
  have "\<exists>conf. sa_data_confidence ?a = Some conf \<and> 0 \<le> conf \<and> conf \<le> 1"
    using analyze_search_trends_confidence [of env current similar_ipos]
  proof
    assume "sa_data_confidence ?a = Some 1"
    then show ?thesis by (intro exI [of _ 1]) simp
  next
    assume "sa_data_confidence ?a = Some 0.75"
    then show ?thesis by (intro exI [of _ "0.75"]) simp
  qed
  then obtain conf where conf: "sa_data_confidence ?a = Some conf" "0 \<le> conf" "conf \<le> 1"
    by (elim exE conjE)
  note fields =
    analyze_search_trends_fields [of env current similar_ipos, unfolded eff option.sel]
  have score: "calculate_trend_score ?a
      = max 35
          (min 100
             (calculate_percentile_rank eff (snd (trend_pools env similar_ipos))
              * bucket_multiplier
                  (calculate_percentile_rank eff (fst (trend_pools env similar_ipos))))
           * (0.6 + 0.4 * conf))"
    using calculate_trend_score_eq [OF fields(1) fields(3) conf]
    by (simp only: trend_strength_bucket)
  show ?thesis
    by (rule exI [of _ eff], rule exI [of _ conf])
       (simp only: eff conf(1) fields(1,2) score simp_thms)
qed

theorem trend_score_by_historical_bucket_witness:
  "calculate_trend_score (analyze_search_trends_historically example_db example_ipo
      (find_similar_historical_ipos example_db example_ipo)) = 60"
proof -
  let ?a = "analyze_search_trends_historically example_db example_ipo
      (find_similar_historical_ipos example_db example_ipo)"
  have pools: "trend_pools example_db (find_similar_historical_ipos example_db example_ipo)
      = ([10, 20, 30, 40], [40, 60])"
    by code_simp
  have eff: "sa_effective_trend_score ?a = Some 50"
    by code_simp
  have conf: "sa_data_confidence ?a = Some 1"
    by code_simp
  have p1: "calculate_percentile_rank 50 [40, 60] = 50"
    by code_simp
  have p2: "bucket_multiplier (calculate_percentile_rank 50 [10, 20, 30, 40]) = 1.2"
    by code_simp
  from trend_score_by_historical_bucket [of example_db example_ipo
        "find_similar_historical_ipos example_db example_ipo"]
  obtain e c where e: "sa_effective_trend_score ?a = Some e"
    and c: "sa_data_confidence ?a = Some c"
    and score: "calculate_trend_score ?a
      = max 35
          (min 100
             (calculate_percentile_rank e
                (snd (trend_pools example_db
                   (find_similar_historical_ipos example_db example_ipo)))
              * bucket_multiplier
                  (calculate_percentile_rank e
                     (fst (trend_pools example_db
                        (find_similar_historical_ipos example_db example_ipo)))))
           * (0.6 + 0.4 * c))"
    by (elim exE conjE)
  from e eff have "e = 50" by simp
  moreover from c conf have "c = 1" by simp
  ultimately show ?thesis
    using score by (simp add: pools p1 p2)
qed

text \<open>
  Claim C7, as stated, fails where the two percentiles fall in different buckets. For
  \<open>example_ipo\<close> the effective trend score 50 is above the whole historical pool
  (percentile 100, Exceptional) and in the middle of the peer pool (percentile 50,
  Moderate): the code returns \<open>50 * 1.2 = 60\<close>, the stated formula
  \<open>50 * 1.0 = 50\<close>.
\<close>

theorem trend_bucket_counterexample:
  "sa_effective_percentile (analyze_search_trends_historically example_db example_ipo
      (find_similar_historical_ipos example_db example_ipo)) = Some 50
   \<and> sa_historical_percentile (analyze_search_trends_historically example_db example_ipo
      (find_similar_historical_ipos example_db example_ipo)) = Some 100
   \<and> sa_data_confidence (analyze_search_trends_historically example_db example_ipo
      (find_similar_historical_ipos example_db example_ipo)) = Some 1
   \<and> calculate_trend_score (analyze_search_trends_historically example_db example_ipo
      (find_similar_historical_ipos example_db example_ipo)) = 60
   \<and> spec_trend_score 50 1 = 50"
  by code_simp

subsection \<open>Rounding\<close>

lemma py_round_nearest:
  obtains r :: int where "py_round x n = of_int r / 10 ^ n"
    and "\<lfloor>x * 10 ^ n\<rfloor> \<le> r" and "r \<le> \<lceil>x * 10 ^ n\<rceil>"
    and "\<bar>of_int r - x * 10 ^ n\<bar> \<le> 1 / 2"
proof -
  define y where "y = x * 10 ^ n"
  define f where "f = \<lfloor>y\<rfloor>"
  define d where "d = y - of_int f"
  define r where "r = (if d < 1 / 2 then f else if 1 / 2 < d then f + 1
                       else if even f then f else f + 1)"
  have d: "0 \<le> d" "d < 1"
    unfolding d_def f_def by linarith+
  have eq: "py_round x n = of_int r / 10 ^ n"
    unfolding py_round_def Let_def r_def d_def f_def y_def by simp
  have lo: "f \<le> r"
    unfolding r_def by simp
  have "r = f \<or> (r = f + 1 \<and> 1 / 2 \<le> d)"
    unfolding r_def by auto
  then have hi: "r \<le> \<lceil>y\<rceil>" and near: "\<bar>of_int r - y\<bar> \<le> 1 / 2"
  proof -
    assume c: "r = f \<or> (r = f + 1 \<and> 1 / 2 \<le> d)"
    have "f \<le> \<lceil>y\<rceil>"
      unfolding f_def by (rule floor_le_ceiling)
    moreover have "f + 1 \<le> \<lceil>y\<rceil>" if "1 / 2 \<le> d"
    proof -
      from that have "of_int f < y" unfolding d_def by simp
      then have "f < \<lceil>y\<rceil>" by (simp add: less_ceiling_iff)
      then show ?thesis by simp
    qed
    ultimately show "r \<le> \<lceil>y\<rceil>"
      using c by auto
    have "r = f \<Longrightarrow> d \<le> 1 / 2"
      unfolding r_def by (auto split: if_splits)
    then show "\<bar>of_int r - y\<bar> \<le> 1 / 2"
      using c d unfolding d_def by auto
  qed
  show ?thesis
    using that [of r] eq lo hi near unfolding y_def f_def by blast
qed

lemma py_round_bounds:
  assumes "of_int lo \<le> x * 10 ^ n" and "x * 10 ^ n \<le> of_int hi"
  shows "of_int lo / 10 ^ n \<le> py_round x n \<and> py_round x n \<le> of_int hi / 10 ^ n"
proof -
  obtain r :: int where r: "py_round x n = of_int r / 10 ^ n"
    "\<lfloor>x * 10 ^ n\<rfloor> \<le> r" "r \<le> \<lceil>x * 10 ^ n\<rceil>"
    by (rule py_round_nearest)
  have "lo \<le> \<lfloor>x * 10 ^ n\<rfloor>"
    using assms(1) by (simp add: le_floor_iff)
  with r(2) have "lo \<le> r" by simp
  moreover have "\<lceil>x * 10 ^ n\<rceil> \<le> hi"
    using assms(2) by (simp add: ceiling_le_iff)
  with r(3) have "r \<le> hi" by simp
  ultimately have "(of_int lo :: real) \<le> of_int r" "(of_int r :: real) \<le> of_int hi"
    by simp_all
  then show ?thesis
    unfolding r(1) by (simp add: divide_right_mono)
qed

lemma py_round_error:
  "\<bar>py_round x n - x\<bar> \<le> 1 / (2 * 10 ^ n)"
proof -
  obtain r :: int where r: "py_round x n = of_int r / 10 ^ n"
    "\<bar>of_int r - x * 10 ^ n\<bar> \<le> 1 / 2"
    by (rule py_round_nearest)
  have "py_round x n - x = (of_int r - x * 10 ^ n) / 10 ^ n"
    unfolding r(1) by (simp add: field_simps)
  then have "\<bar>py_round x n - x\<bar> = \<bar>of_int r - x * 10 ^ n\<bar> / 10 ^ n"
    by simp
  also have "\<dots> \<le> (1 / 2) / 10 ^ n"
    using r(2) by (intro divide_right_mono) simp_all
  finally show ?thesis
    by simp
qed

subsection \<open>Final score\<close>

lemma final_hype_score_bounds:
  "35 \<le> final_hype_score b \<and> final_hype_score b \<le> 100"
  by (simp add: final_hype_score_def Let_def)

lemma rounded_final_bounds:
  "35 \<le> py_round (final_hype_score b) 1 \<and> py_round (final_hype_score b) 1 \<le> 100"
proof -
  have "of_int 350 \<le> final_hype_score b * 10 ^ 1" "final_hype_score b * 10 ^ 1 \<le> of_int 1000"
    using final_hype_score_bounds [of b] by simp_all
  from py_round_bounds [OF this] show ?thesis
    by simp
qed

text \<open>
  Claim C1. For every input of the score composer, the hype score it returns is the
  final score rounded to one decimal, the final score is the base score times 1.1
  plus 12.5 clamped to \<open>[35, 100]\<close>, and both lie in \<open>[35, 100]\<close>; the base
  score is the sum of the sub-scores weighted by the normalised weights. With neutral
  sub-scores of 50 and scaled weights that are all zero, the final score is 67.5.
\<close>

theorem hype_score_in_range:
  "r_hype_score (generate_data_backed_hype_score current similar_ipos benchmarks search
      sentiment predictions)
     = py_round (final_hype_score (base_hype_score
         (component_scores_of similar_ipos benchmarks search sentiment predictions)
         (normalized_weights (weighted_weights
            (component_confidences similar_ipos benchmarks search sentiment predictions))))) 1
   \<and> 35 \<le> r_hype_score (generate_data_backed_hype_score current similar_ipos benchmarks
              search sentiment predictions)
   \<and> r_hype_score (generate_data_backed_hype_score current similar_ipos benchmarks
         search sentiment predictions) \<le> 100
   \<and> final_hype_score b = max 35 (min 100 (b * 1.1 + 12.5))
   \<and> 35 \<le> final_hype_score b
   \<and> final_hype_score b \<le> 100
   \<and> final_hype_score (base_hype_score
         \<lparr> c_financial = 50, c_trend = 50, c_sentiment = 50, c_performance = 50,
           c_similarity = 50 \<rparr>
         (normalized_weights
            \<lparr> c_financial = 0, c_trend = 0, c_sentiment = 0, c_performance = 0,
              c_similarity = 0 \<rparr>)) = 67.5"
proof -
  have result: "r_hype_score (generate_data_backed_hype_score current similar_ipos benchmarks
        search sentiment predictions)
     = py_round (final_hype_score (base_hype_score
         (component_scores_of similar_ipos benchmarks search sentiment predictions)
         (normalized_weights (weighted_weights
            (component_confidences similar_ipos benchmarks search sentiment predictions))))) 1"
    by (simp add: generate_data_backed_hype_score_def Let_def)
  have formula: "final_hype_score b = max 35 (min 100 (b * 1.1 + 12.5))"
    by (simp add: final_hype_score_def Let_def)
  have neutral: "final_hype_score (base_hype_score
         \<lparr> c_financial = 50, c_trend = 50, c_sentiment = 50, c_performance = 50,
           c_similarity = 50 \<rparr>
         (normalized_weights
            \<lparr> c_financial = 0, c_trend = 0, c_sentiment = 0, c_performance = 0,
              c_similarity = 0 \<rparr>)) = 67.5"
    by (simp add: final_hype_score_def base_hype_score_def normalized_weights_def
        total_of_def base_weights_def Let_def)
  show ?thesis
    unfolding result
    using rounded_final_bounds final_hype_score_bounds [of b] formula neutral
    by (intro conjI) auto
qed

subsection \<open>Weight allocation\<close>

lemma weighted_weights_positive: "0 < total_of (weighted_weights cf)"
proof -
  have "0 < c_financial base_weights * max (c_financial cf) 0.25"
    "0 < c_trend base_weights * max (c_trend cf) 0.25"
    "0 < c_sentiment base_weights * max (c_sentiment cf) 0.25"
    "0 < c_performance base_weights * max (c_performance cf) 0.25"
    "0 < c_similarity base_weights * max (c_similarity cf) 0.25"
    by (simp_all add: base_weights_def max_def)
  then show ?thesis
    by (simp add: total_of_def weighted_weights_def)
qed

lemma normalized_weights_total:
  assumes "total_of w \<noteq> 0"
  shows "total_of (normalized_weights w) = 1"
proof -
  define t where "t = total_of w"
  have "total_of (normalized_weights w)
      = c_financial w / t + c_trend w / t + c_sentiment w / t + c_performance w / t
        + c_similarity w / t"
    using assms unfolding t_def by (simp add: normalized_weights_def Let_def total_of_def)
  also have "\<dots> = (c_financial w + c_trend w + c_sentiment w + c_performance w
                    + c_similarity w) / t"
    by (simp add: add_divide_distrib)
  also have "\<dots> = t / t"
    unfolding t_def total_of_def by simp
  also have "\<dots> = 1"
    using assms unfolding t_def by simp
  finally show ?thesis .
qed

lemma rounded_total_close:
  "\<bar>total_of (round_components w 3) - total_of w\<bar> \<le> 0.0025"
proof -
  have e: "\<bar>py_round x 3 - x\<bar> \<le> 1 / 2000" for x
    using py_round_error [of x 3] by simp
  have "total_of (round_components w 3) - total_of w
      = (py_round (c_financial w) 3 - c_financial w)
        + (py_round (c_trend w) 3 - c_trend w)
        + (py_round (c_sentiment w) 3 - c_sentiment w)
        + (py_round (c_performance w) 3 - c_performance w)
        + (py_round (c_similarity w) 3 - c_similarity w)"
    by (simp add: total_of_def round_components_def)
  then have "\<bar>total_of (round_components w 3) - total_of w\<bar> \<le> 5 * (1 / 2000)"
    using e [of "c_financial w"] e [of "c_trend w"] e [of "c_sentiment w"]
      e [of "c_performance w"] e [of "c_similarity w"]
    by linarith
  then show ?thesis
    by simp
qed

lemma component_confidences_floor:
  "0.25 \<le> c_financial (component_confidences similar_ipos benchmarks search sentiment predictions)
   \<and> 0.25 \<le> c_trend (component_confidences similar_ipos benchmarks search sentiment predictions)
   \<and> 0.25 \<le> c_sentiment (component_confidences similar_ipos benchmarks search sentiment predictions)
   \<and> 0.25 \<le> c_performance (component_confidences similar_ipos benchmarks search sentiment predictions)
   \<and> 0.25 \<le> c_similarity (component_confidences similar_ipos benchmarks search sentiment predictions)"
  by (simp add: component_confidences_def min_def max_def)

lemma allocation_as_specified:
  assumes "0.25 \<le> c_financial cf" and "0.25 \<le> c_trend cf" and "0.25 \<le> c_sentiment cf"
    and "0.25 \<le> c_performance cf" and "0.25 \<le> c_similarity cf"
  shows "normalized_weights (weighted_weights cf) = spec_weight_allocation cf"
proof -
  have w: "weighted_weights cf =
      \<lparr> c_financial = 0.28 * c_financial cf, c_trend = 0.18 * c_trend cf,
        c_sentiment = 0.18 * c_sentiment cf, c_performance = 0.20 * c_performance cf,
        c_similarity = 0.16 * c_similarity cf \<rparr>"
    using assms by (simp add: weighted_weights_def base_weights_def max_def)
  have "0 < total_of (weighted_weights cf)"
    by (rule weighted_weights_positive)
  then have pos: "0 < 0.28 * c_financial cf + 0.18 * c_trend cf + 0.18 * c_sentiment cf
      + 0.20 * c_performance cf + 0.16 * c_similarity cf"
    unfolding w by (simp add: total_of_def)
  show ?thesis
    unfolding w using pos
    by (simp add: normalized_weights_def spec_weight_allocation_def total_of_def Let_def)
qed

text \<open>
  Claim C5. Whatever the component confidences, the weights the composer uses sum to
  1, and the allocation it reports (the weights rounded to three decimals) sums to 1
  within 0.0025. For the confidences the composer computes, each weight is the base
  weight (financial 0.28, trend 0.18, sentiment 0.18, performance 0.20, similarity
  0.16) times the confidence of its component, divided by the sum of the five scaled
  weights. Scaled weights whose sum is zero are replaced by the base weights.
\<close>

theorem weight_allocation_normalised:
  "total_of (normalized_weights (weighted_weights cf)) = 1
   \<and> \<bar>total_of (round_components (normalized_weights (weighted_weights cf)) 3) - 1\<bar>
       \<le> 0.0025
   \<and> r_weight_allocation (generate_data_backed_hype_score current similar_ipos benchmarks
         search sentiment predictions)
       = Some (round_components (normalized_weights (weighted_weights
           (component_confidences similar_ipos benchmarks search sentiment predictions))) 3)
   \<and> normalized_weights (weighted_weights
         (component_confidences similar_ipos benchmarks search sentiment predictions))
       = spec_weight_allocation
           (component_confidences similar_ipos benchmarks search sentiment predictions)
   \<and> (0.25 \<le> c_financial cf \<and> 0.25 \<le> c_trend cf \<and> 0.25 \<le> c_sentiment cf
        \<and> 0.25 \<le> c_performance cf \<and> 0.25 \<le> c_similarity cf
      \<longrightarrow> normalized_weights (weighted_weights cf) = spec_weight_allocation cf)
   \<and> (total_of w = 0 \<longrightarrow> normalized_weights w = base_weights)
   \<and> (total_of w \<noteq> 0 \<longrightarrow> total_of (normalized_weights w) = 1)"
proof -
  have total: "total_of (normalized_weights (weighted_weights cf)) = 1"
    using weighted_weights_positive [of cf] by (intro normalized_weights_total) simp
  have rounded: "\<bar>total_of (round_components (normalized_weights (weighted_weights cf)) 3) - 1\<bar>
       \<le> 0.0025"
    using rounded_total_close [of "normalized_weights (weighted_weights cf)"]
    unfolding total .
  have reported: "r_weight_allocation (generate_data_backed_hype_score current similar_ipos
         benchmarks search sentiment predictions)
       = Some (round_components (normalized_weights (weighted_weights
           (component_confidences similar_ipos benchmarks search sentiment predictions))) 3)"
    by (simp add: generate_data_backed_hype_score_def Let_def)
  have computed: "normalized_weights (weighted_weights
         (component_confidences similar_ipos benchmarks search sentiment predictions))
       = spec_weight_allocation
           (component_confidences similar_ipos benchmarks search sentiment predictions)"
    using component_confidences_floor [of similar_ipos benchmarks search sentiment predictions]
    by (intro allocation_as_specified) simp_all
  have zero: "total_of w = 0 \<longrightarrow> normalized_weights w = base_weights"
    by (simp add: normalized_weights_def Let_def)
  show ?thesis
    using total rounded reported computed zero allocation_as_specified [of cf]
      normalized_weights_total [of w]
    by (intro conjI impI) simp_all
qed

theorem weight_allocation_normalised_witness:
  "normalized_weights (weighted_weights
       \<lparr> c_financial = 1, c_trend = 0.75, c_sentiment = 0.7, c_performance = 0.84,
         c_similarity = 0.65 \<rparr>)
     = spec_weight_allocation
         \<lparr> c_financial = 1, c_trend = 0.75, c_sentiment = 0.7, c_performance = 0.84,
           c_similarity = 0.65 \<rparr>
   \<and> normalized_weights
         \<lparr> c_financial = 0, c_trend = 0, c_sentiment = 0, c_performance = 0,
           c_similarity = 0 \<rparr> = base_weights
   \<and> total_of (normalized_weights
         \<lparr> c_financial = 1, c_trend = 1, c_sentiment = 1, c_performance = 1,
           c_similarity = 1 \<rparr>) = 1"
proof -
  let ?cf = "\<lparr> c_financial = 1, c_trend = 0.75, c_sentiment = 0.7, c_performance = 0.84,
         c_similarity = 0.65 \<rparr> :: per_component"
  let ?z = "\<lparr> c_financial = 0, c_trend = 0, c_sentiment = 0, c_performance = 0,
           c_similarity = 0 \<rparr> :: per_component"
  let ?o = "\<lparr> c_financial = 1, c_trend = 1, c_sentiment = 1, c_performance = 1,
           c_similarity = 1 \<rparr> :: per_component"
  have 1: "normalized_weights (weighted_weights ?cf) = spec_weight_allocation ?cf"
    using weight_allocation_normalised [of ?cf _ _ _ _ _ _ ?z] by simp
  have 2: "normalized_weights ?z = base_weights"
    using weight_allocation_normalised [of ?cf _ _ _ _ _ _ ?z] by (simp add: total_of_def)
  have 3: "total_of (normalized_weights ?o) = 1"
    using weight_allocation_normalised [of ?cf _ _ _ _ _ _ ?o] by (simp add: total_of_def)
  show ?thesis
    using 1 2 3 by simp
qed

subsection \<open>The entry point\<close>

lemma analyze_total:
  "\<exists>r. analyze_ipo_hype_score env current = Inr r"
  by (simp add: analyze_ipo_hype_score_def get_fallback_hype_score_def split: sum.split)

lemma analysis_steps_raises:
  assumes "predict_performance_from_history env current
             (find_similar_historical_ipos env current) = Inl e"
  shows "analyze_ipo_hype_score env current = get_fallback_hype_score current"
  using assms by (simp add: analyze_ipo_hype_score_def analysis_steps_def Let_def)

lemma predict_without_pool:
  "\<not> pool_available env \<Longrightarrow>
   predict_performance_from_history env current similar_ipos = Inl StatisticsError"
  by (simp add: predict_performance_from_history_def get_db_pool_def py_median_def)

lemma predict_on_empty_corpus:
  assumes "fetch_performance env = Inr []"
  shows "predict_performance_from_history env current [] = Inl StatisticsError"
  using assms
  by (simp add: predict_performance_from_history_def py_median_def List.map_filter_simps)

lemma find_similar_on_empty_corpus:
  assumes "\<forall>c s. fetch_candidates env c s = Inr []"
  shows "find_similar_historical_ipos env current = []"
  using assms by (simp add: find_similar_eq candidate_rows_def Let_def sort_by_similarity_def)

text \<open>
  Claim C2. The entry point returns a result for every input: an exception raised by
  any step is caught and answered with the fallback result. When the corpus is empty
  (every query returns no row) or there is no connection pool, whatever the external
  sources reported, the result is the fallback: hype score 50, sub-scores 50 except
  the similarity score 30, recommendation Hold, risk level High.
\<close>

theorem analyze_never_raises:
  "(\<exists>r. analyze_ipo_hype_score env current = Inr r)
   \<and> (corpus_empty env \<or> \<not> pool_available env \<longrightarrow>
        analyze_ipo_hype_score env current =
          Inr \<lparr> r_hype_score = 50,
                r_component_scores =
                  \<lparr> c_financial = 50, c_trend = 50, c_sentiment = 50,
                    c_performance = 50, c_similarity = 30 \<rparr>,
                r_weight_allocation = None,
                r_key_factors = [''Limited historical data available''],
                r_recommendation = ''Hold'',
                r_risk_level = ''High'',
                r_similar_ipos_count = 0,
                r_benchmarks_analyzed = 0 \<rparr>)"
proof (intro conjI impI)
  show "\<exists>r. analyze_ipo_hype_score env current = Inr r"
    by (rule analyze_total)
next
  assume "corpus_empty env \<or> \<not> pool_available env"
  then have "predict_performance_from_history env current
               (find_similar_historical_ipos env current) = Inl StatisticsError"
  proof
    assume empty: "corpus_empty env"
    then have "find_similar_historical_ipos env current = []"
      by (intro find_similar_on_empty_corpus) (simp add: corpus_empty_def)
    moreover from empty have "fetch_performance env = Inr []"
      by (simp add: corpus_empty_def)
    ultimately show ?thesis
      by (simp add: predict_on_empty_corpus)
  next
    assume "\<not> pool_available env"
    then show ?thesis
      by (rule predict_without_pool)
  qed
  then have "analyze_ipo_hype_score env current = get_fallback_hype_score current"
    by (rule analysis_steps_raises)
  then show "analyze_ipo_hype_score env current =
          Inr \<lparr> r_hype_score = 50,
                r_component_scores =
                  \<lparr> c_financial = 50, c_trend = 50, c_sentiment = 50,
                    c_performance = 50, c_similarity = 30 \<rparr>,
                r_weight_allocation = None,
                r_key_factors = [''Limited historical data available''],
                r_recommendation = ''Hold'',
                r_risk_level = ''High'',
                r_similar_ipos_count = 0,
                r_benchmarks_analyzed = 0 \<rparr>"
    by (simp add: get_fallback_hype_score_def)
qed

theorem analyze_never_raises_witness:
  "corpus_empty empty_db
   \<and> ipo_trend_error failed_ipo = Some ''timeout''
   \<and> ipo_news_error failed_ipo = Some ''timeout''
   \<and> analyze_ipo_hype_score empty_db failed_ipo =
          Inr \<lparr> r_hype_score = 50,
                r_component_scores =
                  \<lparr> c_financial = 50, c_trend = 50, c_sentiment = 50,
                    c_performance = 50, c_similarity = 30 \<rparr>,
                r_weight_allocation = None,
                r_key_factors = [''Limited historical data available''],
                r_recommendation = ''Hold'',
                r_risk_level = ''High'',
                r_similar_ipos_count = 0,
                r_benchmarks_analyzed = 0 \<rparr>"
proof -
  have empty: "corpus_empty empty_db"
    by (simp add: corpus_empty_def empty_db_def)
  have "ipo_trend_error failed_ipo = Some ''timeout''" "ipo_news_error failed_ipo = Some ''timeout''"
    by (simp_all add: failed_ipo_def)
  then show ?thesis
    using empty analyze_never_raises [of empty_db failed_ipo] by simp
qed

end
